theory Spec2Isabelle
  imports Main
begin

section \<open>Data model\<close>

text \<open>
  The document e-signature backend, embedded function by function. Field names follow the
  Mongoose schemas, with a prefix naming the schema (\<open>signer_\<close>, \<open>doc_\<close>, \<open>sig_\<close>,
  \<open>log_\<close>, \<open>tok_\<close>), since several schemas share names such as \<open>email\<close> or
  \<open>signedAt\<close>. A JavaScript value that may be \<open>undefined\<close> or \<open>null\<close> is an
  \<open>option\<close>. \<open>Date.now()\<close> is an integer number of milliseconds.

  An \<open>ObjectId\<close> is a JavaScript object: it has a value (the hex string) and an identity.
  The operator \<open>===\<close> on two ObjectIds compares identities, database queries compare values.
  The identity is the number \<open>objRef\<close>; every document instance that is created or loaded
  from the database carries an \<open>_id\<close> object of its own.
\<close>

datatype objectId = ObjectId (hexString: string) (objRef: nat)

definition strict_eq :: "objectId \<Rightarrow> objectId \<Rightarrow> bool" where
  "strict_eq a b = (objRef a = objRef b)"

datatype status = draft | sent | signed | rejected

datatype error =
    AppError string nat
  | ValidationError string
  | DuplicateKeyError
  | DocumentNotFoundError
  | FsError string
  | MailError
  | TypeError string

record signer =
  signer_name :: "string option"
  signer_email :: "string option"
  signer_signed :: bool
  signer_signedAt :: "int option"
  signer_signatureToken :: "string option"
  signer_tokenExpires :: "int option"

record signedFileInfo =
  sf_filename :: string
  sf_path :: string
  sf_size :: nat
  sf_signedAt :: int

record document =
  doc_id :: string
  doc_title :: "string option"
  doc_description :: "string option"
  doc_owner :: string
  doc_status :: status
  doc_originalFile_path :: string
  doc_signedFile :: "signedFileInfo option"
  doc_signers :: "signer list"
  doc_signatures :: "string list"
  doc_fileHash :: string
  doc_pageCount :: nat
  doc_sentAt :: "int option"
  doc_signedAt :: "int option"
  doc_rejectedAt :: "int option"
  doc_rejectionReason :: "string option"

record position =
  pos_pageNumber :: "int option"
  pos_x :: "int option"
  pos_y :: "int option"
  pos_width :: "int option"
  pos_height :: "int option"

record signature =
  sig_id :: string
  sig_documentId :: string
  sig_signerEmail :: string
  sig_signerName :: string
  sig_signatureData :: string
  sig_signatureType :: string
  sig_position :: position
  sig_ipAddress :: "string option"
  sig_userAgent :: "string option"
  sig_signedAt :: int
  sig_isVerified :: bool

datatype metaValue = MStr "string option" | MBool bool | MNat nat | MStrs "string option list"

record auditLog =
  log_userId :: "string option"
  log_documentId :: "string option"
  log_action :: string
  log_metadata :: "(string \<times> metaValue) list"
  log_ipAddress :: "string option"
  log_userAgent :: "string option"
  log_timestamp :: int
  log_status :: string

record tokenData =
  tok_documentId :: objectId
  tok_email :: "string option"
  tok_expiresAt :: int
  tok_used :: bool

record mail =
  mail_to :: "string option"
  mail_subject :: string
  mail_signingUrl :: "string option"

record user =
  user_id :: string
  user_name :: string
  user_email :: string
  user_role :: string

subsection \<open>The JavaScript \<open>Map\<close>\<close>

text \<open>
  A \<open>Map\<close> iterates in insertion order; \<open>set\<close> on a key already present replaces the
  value where it stands, on a new key it appends.
\<close>

type_synonym ('k, 'v) jsmap = "('k \<times> 'v) list"

fun jsmap_get :: "('k, 'v) jsmap \<Rightarrow> 'k \<Rightarrow> 'v option" where
  "jsmap_get [] k = None"
| "jsmap_get ((k', v) # m) k = (if k' = k then Some v else jsmap_get m k)"

fun jsmap_set :: "('k, 'v) jsmap \<Rightarrow> 'k \<Rightarrow> 'v \<Rightarrow> ('k, 'v) jsmap" where
  "jsmap_set [] k v = [(k, v)]"
| "jsmap_set ((k', v') # m) k v = (if k' = k then (k, v) # m else (k', v') # jsmap_set m k v)"

definition jsmap_delete :: "('k, 'v) jsmap \<Rightarrow> 'k \<Rightarrow> ('k, 'v) jsmap" where
  "jsmap_delete m k = filter (\<lambda>kv. fst kv \<noteq> k) m"

section \<open>The token service (\<open>services/tokenService.js\<close>)\<close>

type_synonym tokenStore = "(string, tokenData) jsmap"

definition sevenDays :: int where
  "sevenDays = 7 * 24 * 60 * 60"

text \<open>\<open>storeToken(token, data, expiryInSeconds)\<close>: the key of the entry is the token it is given.\<close>

definition storeToken :: "int \<Rightarrow> tokenStore \<Rightarrow> string \<Rightarrow> objectId \<Rightarrow> string option \<Rightarrow> int
    \<Rightarrow> string \<times> tokenStore" where
  "storeToken now ts token documentId email expiryInSeconds =
     (let expiresAt = now + expiryInSeconds * 1000
      in (token, jsmap_set ts token
            \<lparr>tok_documentId = documentId, tok_email = email,
             tok_expiresAt = expiresAt, tok_used = False\<rparr>))"

text \<open>\<open>verifyToken(token)\<close>: the result and the store afterwards.\<close>

definition verifyToken :: "int \<Rightarrow> tokenStore \<Rightarrow> string
    \<Rightarrow> (objectId \<times> string option) option \<times> tokenStore" where
  "verifyToken now ts token =
     (case jsmap_get ts token of
        None \<Rightarrow> (None, ts)
      | Some td \<Rightarrow>
          if tok_expiresAt td < now then (None, jsmap_delete ts token)
          else if tok_used td then (None, ts)
          else (Some (tok_documentId td, tok_email td), ts))"

definition invalidateToken :: "tokenStore \<Rightarrow> string \<Rightarrow> tokenStore" where
  "invalidateToken ts token =
     (case jsmap_get ts token of
        None \<Rightarrow> ts
      | Some td \<Rightarrow> jsmap_set ts token (td\<lparr>tok_used := True\<rparr>))"

text \<open>
  \<open>getToken(documentId, email)\<close>: the first entry, in insertion order, whose
  \<open>documentId\<close> is \<open>===\<close> the argument, whose email is the argument and that is unused.
\<close>

fun getToken :: "tokenStore \<Rightarrow> objectId \<Rightarrow> string option \<Rightarrow> string option" where
  "getToken [] documentId email = None"
| "getToken ((token, td) # ts) documentId email =
     (if strict_eq (tok_documentId td) documentId \<and> tok_email td = email \<and> \<not> tok_used td
      then Some token else getToken ts documentId email)"

definition cleanupExpiredTokens :: "int \<Rightarrow> tokenStore \<Rightarrow> tokenStore" where
  "cleanupExpiredTokens now ts = filter (\<lambda>kv. \<not> tok_expiresAt (snd kv) < now) ts"


section \<open>The environment and the persisted state\<close>

text \<open>
  What a request handler reads from outside the program is a field of \<open>env\<close>: the clock
  (\<open>Date.now()\<close>, read once for the request), the values of
  \<open>crypto.randomBytes(32).toString('hex')\<close> (the \<open>k\<close>-th call of the request), the
  \<open>_id\<close> a newly created record receives, the SHA-256 hex digest, base64 encoding,
  the mail transport (whether \<open>sendMail\<close> succeeds), the PDF library (\<open>PDFDocument.load\<close>
  as the page count when the bytes parse, \<open>save\<close>) and \<open>process.env.BASE_URL\<close>.
\<close>

record env =
  env_now :: int
  env_dateString :: string
  env_randomBytes :: "nat \<Rightarrow> string"
  env_newObjectId :: string
  env_sha256 :: "string \<Rightarrow> string"
  env_base64 :: "string \<Rightarrow> string"
  env_sendMail :: "mail \<Rightarrow> bool"
  env_pdfLoad :: "string \<Rightarrow> nat option"
  env_pdfSave :: "string \<Rightarrow> string"
  env_BASE_URL :: string

text \<open>
  An index of a collection: its key pattern (fields with their directions) and whether it
  is unique.
\<close>

record indexSpec =
  idx_key :: "(string \<times> int) list"
  idx_unique :: bool

text \<open>
  The state: the three MongoDB collections, the indexes the Signature collection has, the
  token service's in-memory \<open>Map\<close>, the file system (path to content), the mails handed
  to the transport, and the next unused object identity.
\<close>

record world =
  documents :: "document list"
  signatureDocs :: "signature list"
  signatureIndexes :: "indexSpec list"
  auditLogs :: "auditLog list"
  tokens :: tokenStore
  files :: "(string, string) jsmap"
  outbox :: "mail list"
  nextRef :: nat

type_synonym 'a result = "(error + 'a) \<times> world"

section \<open>The models (\<open>models/Document.js\<close>, \<open>models/AuditLog.js\<close>, \<open>models/Signature.js\<close>)\<close>

subsection \<open>Strings\<close>

text \<open>
  The schema options \<open>trim\<close> and \<open>lowercase\<close>, on the ASCII range of a byte string.
\<close>

definition isSpace :: "char \<Rightarrow> bool" where
  "isSpace c = (let n = (of_char c :: nat) in n = 32 \<or> (9 \<le> n \<and> n \<le> 13))"

definition trim :: "string \<Rightarrow> string" where
  "trim s = rev (dropWhile isSpace (rev (dropWhile isSpace s)))"

definition toLowerChar :: "char \<Rightarrow> char" where
  "toLowerChar c = (let n = (of_char c :: nat) in if 65 \<le> n \<and> n \<le> 90 then char_of (n + 32) else c)"

definition toLowerCase :: "string \<Rightarrow> string" where
  "toLowerCase s = map toLowerChar s"

text \<open>A present, non-empty string: what the \<open>required\<close> validator of a String path accepts.\<close>

definition present :: "string option \<Rightarrow> bool" where
  "present v = (case v of None \<Rightarrow> False | Some s \<Rightarrow> s \<noteq> [])"

subsection \<open>AuditLog\<close>

definition auditActions :: "string list" where
  "auditActions =
     [''document_created'', ''document_updated'', ''document_viewed'', ''document_sent'',
      ''document_signed'', ''document_rejected'', ''signature_added'', ''signature_removed'',
      ''email_sent'', ''token_generated'', ''token_verified'']"

text \<open>The schema: \<open>userId\<close>, \<open>documentId\<close> and \<open>action\<close> are required, both enums are closed.\<close>

definition AuditLog_validate :: "auditLog \<Rightarrow> bool" where
  "AuditLog_validate data =
     (log_userId data \<noteq> None \<and> log_documentId data \<noteq> None
      \<and> log_action data \<in> set auditActions
      \<and> log_status data \<in> set [''success'', ''failure'', ''pending''])"

text \<open>
  \<open>AuditLog.log(data)\<close>: \<open>this.create(data)\<close> inside \<open>try\<close>; the \<open>catch\<close> swallows
  the validation error, so a rejected entry leaves the collection as it was.
\<close>

definition AuditLog_log :: "auditLog \<Rightarrow> world \<Rightarrow> world" where
  "AuditLog_log data w =
     (if AuditLog_validate data then w\<lparr>auditLogs := auditLogs w @ [data]\<rparr> else w)"

text \<open>The entry the controllers build; \<open>timestamp\<close> and \<open>status\<close> take their defaults.\<close>

definition auditEntry :: "env \<Rightarrow> string option \<Rightarrow> string option \<Rightarrow> string
    \<Rightarrow> (string \<times> metaValue) list \<Rightarrow> string option \<Rightarrow> string option \<Rightarrow> auditLog" where
  "auditEntry env userId documentId action metadata ip agent =
     \<lparr>log_userId = userId, log_documentId = documentId, log_action = action,
      log_metadata = metadata, log_ipAddress = ip, log_userAgent = agent,
      log_timestamp = env_now env, log_status = ''success''\<rparr>"

subsection \<open>Signature\<close>

record signatureInput =
  in_documentId :: string
  in_signerEmail :: "string option"
  in_signerName :: "string option"
  in_signatureData :: "string option"
  in_signatureType :: "string option"
  in_position :: "position option"
  in_ipAddress :: "string option"
  in_userAgent :: "string option"

definition emptyPosition :: position where
  "emptyPosition = \<lparr>pos_pageNumber = None, pos_x = None, pos_y = None,
                     pos_width = None, pos_height = None\<rparr>"

text \<open>
  Casting: \<open>signerEmail\<close> is lowercased, \<open>signatureType\<close> defaults to \<open>draw\<close>.
  Validation: the required paths, the enum and \<open>min: 1\<close> on the page number.
\<close>

definition Signature_validate :: "signatureInput \<Rightarrow> bool" where
  "Signature_validate i =
     (let pos = (case in_position i of None \<Rightarrow> emptyPosition | Some p \<Rightarrow> p)
      in present (in_signerEmail i) \<and> present (in_signerName i) \<and> present (in_signatureData i)
         \<and> (case in_signatureType i of None \<Rightarrow> True
              | Some t \<Rightarrow> t \<in> set [''draw'', ''type'', ''upload''])
         \<and> (case pos_pageNumber pos of None \<Rightarrow> False | Some n \<Rightarrow> 1 \<le> n)
         \<and> pos_x pos \<noteq> None \<and> pos_y pos \<noteq> None)"

definition Signature_cast :: "env \<Rightarrow> signatureInput \<Rightarrow> signature" where
  "Signature_cast env i =
     \<lparr>sig_id = env_newObjectId env,
      sig_documentId = in_documentId i,
      sig_signerEmail = toLowerCase (the (in_signerEmail i)),
      sig_signerName = the (in_signerName i),
      sig_signatureData = the (in_signatureData i),
      sig_signatureType = (case in_signatureType i of None \<Rightarrow> ''draw'' | Some t \<Rightarrow> t),
      sig_position = the (in_position i),
      sig_ipAddress = in_ipAddress i,
      sig_userAgent = in_userAgent i,
      sig_signedAt = env_now env,
      sig_isVerified = True\<rparr>"

text \<open>
  The indexes the schema declares, in the order of the \<open>signatureSchema.index\<close> calls: the
  pair \<open>{ documentId: 1, signerEmail: 1 }\<close> plain, \<open>{ signedAt: -1 }\<close>, and the same pair
  again with \<open>{ unique: true }\<close>.
\<close>

definition pairKey :: "(string \<times> int) list" where
  "pairKey = [(''documentId'', 1), (''signerEmail'', 1)]"

definition signatureSchema_indexes :: "indexSpec list" where
  "signatureSchema_indexes =
     [\<lparr>idx_key = pairKey, idx_unique = False\<rparr>,
      \<lparr>idx_key = [(''signedAt'', - 1)], idx_unique = False\<rparr>,
      \<lparr>idx_key = pairKey, idx_unique = True\<rparr>]"

text \<open>
  Mongoose builds the declared indexes when the model is compiled, one \<open>createIndex\<close> call
  per declaration, in the order of declaration, and goes on after a call that fails.
  MongoDB names an index after its key pattern. A request for a key pattern the collection
  already has an index on leaves the indexes as they are: it does nothing when the options
  are those of the existing index, and it is refused when they differ.
\<close>

definition createIndex :: "indexSpec list \<Rightarrow> indexSpec \<Rightarrow> indexSpec list" where
  "createIndex existing spec =
     (if idx_key spec \<in> set (map idx_key existing) then existing else existing @ [spec])"

definition ensureIndexes :: "indexSpec list \<Rightarrow> indexSpec list \<Rightarrow> indexSpec list" where
  "ensureIndexes declared existing = foldl createIndex existing declared"

text \<open>\<open>mongoose.model('Signature', signatureSchema)\<close>, as far as the indexes go.\<close>

definition Signature_init :: "world \<Rightarrow> world" where
  "Signature_init w =
     w\<lparr>signatureIndexes := ensureIndexes signatureSchema_indexes (signatureIndexes w)\<rparr>"

text \<open>The key of a Signature under the pair \<open>{ documentId: 1, signerEmail: 1 }\<close>.\<close>

definition sig_key :: "signature \<Rightarrow> string \<times> string" where
  "sig_key s = (sig_documentId s, sig_signerEmail s)"

definition pairIsUnique :: "indexSpec list \<Rightarrow> bool" where
  "pairIsUnique ixs = (\<lparr>idx_key = pairKey, idx_unique = True\<rparr> \<in> set ixs)"

text \<open>
  \<open>Signature.create(data)\<close>: validation first, then the insert. The insert is refused for
  a key that a unique index of the collection already holds: the pair, when the collection
  has the unique index on it, and \<open>_id\<close>. \<open>the\<close> is applied to validated fields only.
\<close>

definition Signature_create :: "env \<Rightarrow> signatureInput \<Rightarrow> world \<Rightarrow> signature result" where
  "Signature_create env i w =
     (if \<not> Signature_validate i then (Inl (ValidationError ''Signature validation failed''), w)
      else let s = Signature_cast env i
           in if (pairIsUnique (signatureIndexes w)
                   \<and> sig_key s \<in> set (map sig_key (signatureDocs w)))
                 \<or> sig_id s \<in> set (map sig_id (signatureDocs w))
              then (Inl DuplicateKeyError, w)
              else (Inr s, w\<lparr>signatureDocs := signatureDocs w @ [s]\<rparr>))"

definition Signature_findById :: "world \<Rightarrow> string \<Rightarrow> signature option" where
  "Signature_findById w i = find (\<lambda>s. sig_id s = i) (signatureDocs w)"


subsection \<open>Document\<close>

text \<open>
  The validators of the document schema: \<open>title\<close> required and at most 200 characters,
  \<open>description\<close> at most 500. The setters \<open>trim\<close> act where a value is assigned.
\<close>

definition Document_validate :: "document \<Rightarrow> bool" where
  "Document_validate d =
     (present (doc_title d)
      \<and> (case doc_title d of None \<Rightarrow> True | Some t \<Rightarrow> length t \<le> 200)
      \<and> (case doc_description d of None \<Rightarrow> True | Some t \<Rightarrow> length t \<le> 500))"

text \<open>
  The \<open>pre('save')\<close> hook: when \<open>status\<close> was modified, stamp the time of the state
  reached, once.
\<close>

definition preSave :: "env \<Rightarrow> bool \<Rightarrow> document \<Rightarrow> document" where
  "preSave env statusModified d =
     (if statusModified then
        (if doc_status d = sent \<and> doc_sentAt d = None then d\<lparr>doc_sentAt := Some (env_now env)\<rparr>
         else if doc_status d = signed \<and> doc_signedAt d = None
           then d\<lparr>doc_signedAt := Some (env_now env)\<rparr>
         else if doc_status d = rejected \<and> doc_rejectedAt d = None
           then d\<lparr>doc_rejectedAt := Some (env_now env)\<rparr>
         else d)
      else d)"

definition Document_findById :: "world \<Rightarrow> string \<Rightarrow> document option" where
  "Document_findById w i = find (\<lambda>d. doc_id d = i) (documents w)"

text \<open>\<open>Document.create\<close>: validation, the hook, the insert (\<open>_id\<close> is unique).\<close>

definition Document_create :: "env \<Rightarrow> document \<Rightarrow> world \<Rightarrow> document result" where
  "Document_create env d w =
     (if \<not> Document_validate d then (Inl (ValidationError ''Document validation failed''), w)
      else if Document_findById w (doc_id d) \<noteq> None then (Inl DuplicateKeyError, w)
      else let d' = preSave env True d
           in (Inr d', w\<lparr>documents := documents w @ [d']\<rparr>))"

text \<open>
  \<open>document.save()\<close> on a loaded instance: validation, the hook, and the stored record with
  this \<open>_id\<close> replaced. \<open>statusModified\<close> is \<open>this.isModified('status')\<close>.
\<close>

definition replaceById :: "document \<Rightarrow> document list \<Rightarrow> document list" where
  "replaceById d' ds = map (\<lambda>x. if doc_id x = doc_id d' then d' else x) ds"

definition Document_save :: "env \<Rightarrow> bool \<Rightarrow> document \<Rightarrow> world \<Rightarrow> document result" where
  "Document_save env statusModified d w =
     (if \<not> Document_validate d then (Inl (ValidationError ''Document validation failed''), w)
      else if Document_findById w (doc_id d) = None then (Inl DocumentNotFoundError, w)
      else let d' = preSave env statusModified d
           in (Inr d', w\<lparr>documents := replaceById d' (documents w)\<rparr>))"

definition Document_findByIdAndDelete :: "string \<Rightarrow> world \<Rightarrow> world" where
  "Document_findByIdAndDelete i w = w\<lparr>documents := filter (\<lambda>d. doc_id d \<noteq> i) (documents w)\<rparr>"

text \<open>\<open>Array.prototype.find\<close> followed by an assignment to the element found.\<close>

fun updateFirst :: "('a \<Rightarrow> bool) \<Rightarrow> ('a \<Rightarrow> 'a) \<Rightarrow> 'a list \<Rightarrow> 'a list" where
  "updateFirst P f [] = []"
| "updateFirst P f (x # xs) = (if P x then f x # xs else x # updateFirst P f xs)"

text \<open>
  \<open>generateSigningToken(signerEmail)\<close>: the signer record receives the SHA-256 digest of
  the token and an expiry; the token itself is the return value.
\<close>

definition generateSigningToken :: "env \<Rightarrow> nat \<Rightarrow> document \<Rightarrow> string option \<Rightarrow> string \<times> document" where
  "generateSigningToken env k d signerEmail =
     (let token = env_randomBytes env k;
          hashedToken = env_sha256 env token
      in (token,
          d\<lparr>doc_signers :=
              updateFirst (\<lambda>s. signer_email s = signerEmail)
                (\<lambda>s. s\<lparr>signer_signatureToken := Some hashedToken,
                        signer_tokenExpires := Some (env_now env + 7 * 24 * 60 * 60 * 1000)\<rparr>)
                (doc_signers d)\<rparr>))"

definition verifySigningToken :: "env \<Rightarrow> document \<Rightarrow> string \<Rightarrow> string option \<Rightarrow> bool" where
  "verifySigningToken env d token email =
     (find (\<lambda>s. signer_email s = email
                \<and> signer_signatureToken s = Some (env_sha256 env token)
                \<and> (case signer_tokenExpires s of None \<Rightarrow> False | Some t \<Rightarrow> env_now env < t))
        (doc_signers d) \<noteq> None)"

section \<open>The PDF service and the mail service\<close>

definition getPDFMetadata :: "env \<Rightarrow> (string, string) jsmap \<Rightarrow> string \<Rightarrow> error + nat" where
  "getPDFMetadata env fs filePath =
     (case jsmap_get fs filePath of
        None \<Rightarrow> Inl (AppError ''Error reading PDF file'' 500)
      | Some pdfBytes \<Rightarrow>
          (case env_pdfLoad env pdfBytes of
             None \<Rightarrow> Inl (AppError ''Error reading PDF file'' 500)
           | Some pageCount \<Rightarrow> Inr pageCount))"

text \<open>
  \<open>generateSignedPDF(originalPath, signatures)\<close>. Both controllers pass
  \<open>document.signatures\<close>, the array of ObjectIds of the unpopulated document. The loop
  destructures \<open>position\<close> from each element; an ObjectId has no such property, so
  \<open>position.pageNumber\<close> raises a TypeError for the first element, outside the inner
  \<open>try\<close>; the outer \<open>catch\<close> turns every error into the AppError. With no element the
  loop is skipped and the saved bytes go to the temporary file.
\<close>

definition generateSignedPDF :: "env \<Rightarrow> (string, string) jsmap \<Rightarrow> string \<Rightarrow> string list
    \<Rightarrow> error + (string \<times> (string, string) jsmap)" where
  "generateSignedPDF env fs originalPath signatures =
     (case jsmap_get fs originalPath of
        None \<Rightarrow> Inl (AppError ''Error generating signed PDF'' 500)
      | Some pdfBytes \<Rightarrow>
          (case env_pdfLoad env pdfBytes of
             None \<Rightarrow> Inl (AppError ''Error generating signed PDF'' 500)
           | Some pageCount \<Rightarrow>
               if signatures \<noteq> [] then Inl (AppError ''Error generating signed PDF'' 500)
               else let modifiedPdfBytes = env_pdfSave env pdfBytes;
                        tempPath = ''uploads/signed/temp-'' @ env_dateString env @ ''.pdf''
                    in Inr (tempPath, jsmap_set fs tempPath modifiedPdfBytes)))"

text \<open>The three mails; a transport failure is rethrown to the caller.\<close>

definition sendMail :: "env \<Rightarrow> mail \<Rightarrow> world \<Rightarrow> unit result" where
  "sendMail env m w =
     (if env_sendMail env m then (Inr (), w\<lparr>outbox := outbox w @ [m]\<rparr>) else (Inl MailError, w))"

text \<open>A template literal renders \<open>undefined\<close> and \<open>null\<close> by name.\<close>

definition orUndefined :: "string option \<Rightarrow> string" where
  "orUndefined v = (case v of None \<Rightarrow> ''undefined'' | Some s \<Rightarrow> s)"

definition orNull :: "string option \<Rightarrow> string" where
  "orNull v = (case v of None \<Rightarrow> ''null'' | Some s \<Rightarrow> s)"

definition sendSigningRequest :: "env \<Rightarrow> string option \<Rightarrow> string option \<Rightarrow> string
    \<Rightarrow> world \<Rightarrow> unit result" where
  "sendSigningRequest env to documentName signingUrl w =
     sendMail env \<lparr>mail_to = to,
                   mail_subject = ''Document Ready for Signature: '' @ orUndefined documentName,
                   mail_signingUrl = Some signingUrl\<rparr> w"

definition sendDocumentSignedNotification :: "env \<Rightarrow> string option \<Rightarrow> string option
    \<Rightarrow> world \<Rightarrow> unit result" where
  "sendDocumentSignedNotification env to documentName w =
     sendMail env \<lparr>mail_to = to,
                   mail_subject = ''Document Signed: '' @ orUndefined documentName,
                   mail_signingUrl = None\<rparr> w"

definition sendRejectionNotification :: "env \<Rightarrow> string option \<Rightarrow> string option
    \<Rightarrow> world \<Rightarrow> unit result" where
  "sendRejectionNotification env to documentName w =
     sendMail env \<lparr>mail_to = to,
                   mail_subject = ''Document Rejected: '' @ orUndefined documentName,
                   mail_signingUrl = None\<rparr> w"


section \<open>Requests, responses and middleware\<close>

text \<open>
  \<open>req.body.signers\<close>: absent (or the empty string), a string that \<open>JSON.parse\<close>
  rejects, or the array of signer objects, each cast by the sub-schema (so a client may
  set any field of a signer, \<open>signed\<close> included).
\<close>

datatype signersField = Absent | Malformed | Parsed "signer list"

record request =
  req_user :: "user option"
  req_ip :: "string option"
  req_userAgent :: "string option"
  req_file :: "string option"
  req_file_size :: nat
  params_id :: string
  params_token :: string
  params_signatureId :: string
  body_title :: "string option"
  body_description :: "string option"
  body_signers :: signersField
  body_reason :: "string option"
  body_documentId :: string
  body_signerEmail :: "string option"
  body_signerName :: "string option"
  body_position :: "position option"
  body_signatureType :: "string option"
  body_signatureData :: "string option"
  body_name :: "string option"

datatype response =
    Response nat string "document option" "signature option"
  | Verification signature bool bool

text \<open>
  \<open>protect\<close>: \<open>req.user\<close> is present exactly when the bearer token of the request was
  accepted. \<open>checkDocumentOwnership\<close> loads \<open>req.document\<close> for the owner or an admin.
  The upload middleware answers a request without a file before the controller runs.
\<close>

definition protect :: "request \<Rightarrow> error + user" where
  "protect req =
     (case req_user req of
        None \<Rightarrow> Inl (AppError ''You are not logged in. Please log in to access this resource.'' 401)
      | Some u \<Rightarrow> Inr u)"

definition checkDocumentOwnership :: "user \<Rightarrow> string \<Rightarrow> world \<Rightarrow> error + document" where
  "checkDocumentOwnership usr i w =
     (case Document_findById w i of
        None \<Rightarrow> Inl (AppError ''Document not found.'' 404)
      | Some document \<Rightarrow>
          if doc_owner document \<noteq> user_id usr \<and> user_role usr \<noteq> ''admin''
          then Inl (AppError ''You do not have permission to access this document.'' 403)
          else Inr document)"

definition uploadDocumentMiddleware :: "request \<Rightarrow> error + unit" where
  "uploadDocumentMiddleware req =
     (case req_file req of None \<Rightarrow> Inl (AppError ''Please upload a document.'' 400)
      | Some _ \<Rightarrow> Inr ())"

definition uploadSignature :: "request \<Rightarrow> error + unit" where
  "uploadSignature req =
     (case req_file req of None \<Rightarrow> Inl (AppError ''Please upload a signature image.'' 400)
      | Some _ \<Rightarrow> Inr ())"

section \<open>The document controller\<close>

text \<open>
  The loop of \<open>uploadDocument\<close> over \<open>document.signers\<close>: a token per signer, its digest
  written to the signer record, the token itself stored by the token service under
  \<open>document._id\<close> and the signer's email. \<open>k\<close> counts the calls of \<open>randomBytes\<close>.
\<close>

fun mintTokens :: "env \<Rightarrow> objectId \<Rightarrow> nat \<Rightarrow> string option list \<Rightarrow> document \<Rightarrow> tokenStore
    \<Rightarrow> document \<times> tokenStore" where
  "mintTokens env oid k [] d ts = (d, ts)"
| "mintTokens env oid k (email # emails) d ts =
     (let (token, d') = generateSigningToken env k d email;
          (_, ts') = storeToken (env_now env) ts token oid email sevenDays
      in mintTokens env oid (Suc k) emails d' ts')"

definition newDocument :: "env \<Rightarrow> user \<Rightarrow> request \<Rightarrow> string \<Rightarrow> signer list \<Rightarrow> nat \<Rightarrow> string
    \<Rightarrow> document" where
  "newDocument env usr req filePath signersArray pageCount fileHash =
     \<lparr>doc_id = env_newObjectId env,
      doc_title = map_option trim (body_title req),
      doc_description = map_option trim (body_description req),
      doc_owner = user_id usr,
      doc_status = draft,
      doc_originalFile_path = filePath,
      doc_signedFile = None,
      doc_signers = signersArray,
      doc_signatures = [],
      doc_fileHash = fileHash,
      doc_pageCount = pageCount,
      doc_sentAt = None, doc_signedAt = None, doc_rejectedAt = None,
      doc_rejectionReason = None\<rparr>"

definition uploadDocument :: "env \<Rightarrow> user \<Rightarrow> request \<Rightarrow> world \<Rightarrow> response result" where
  "uploadDocument env usr req w =
     (case req_file req of
        None \<Rightarrow> (Inl (AppError ''Please upload a document file.'' 400), w)
      | Some filePath \<Rightarrow>
          (case body_signers req of
             Malformed \<Rightarrow> (Inl (AppError ''Invalid signers format.'' 400), w)
           | signersField \<Rightarrow>
               let signersArray = (case signersField of Parsed ss \<Rightarrow> ss | _ \<Rightarrow> [])
               in (case getPDFMetadata env (files w) filePath of
                     Inl e \<Rightarrow> (Inl e, w)
                   | Inr pageCount \<Rightarrow>
                       (case jsmap_get (files w) filePath of
                          None \<Rightarrow> (Inl (FsError filePath), w)
                        | Some bytes \<Rightarrow>
                            (case Document_create env
                                    (newDocument env usr req filePath signersArray pageCount
                                       (env_sha256 env bytes)) w of
                               (Inl e, w1) \<Rightarrow> (Inl e, w1)
                             | (Inr document, w1) \<Rightarrow>
                                 let oid = ObjectId (doc_id document) (nextRef w1);
                                     w2 = w1\<lparr>nextRef := Suc (nextRef w1)\<rparr>;
                                     (document2, ts) =
                                        mintTokens env oid 0 (map signer_email (doc_signers document))
                                          document (tokens w2);
                                     w3 = w2\<lparr>tokens := ts\<rparr>
                                 in (case Document_save env False document2 w3 of
                                       (Inl e, w4) \<Rightarrow> (Inl e, w4)
                                     | (Inr document3, w4) \<Rightarrow>
                                         (Inr (Response 201 ''Document uploaded successfully''
                                                 (Some document3) None),
                                          AuditLog_log
                                            (auditEntry env (Some (user_id usr)) (Some (doc_id document3))
                                               ''document_created''
                                               [(''title'', MStr (doc_title document3)),
                                                (''fileSize'', MNat (req_file_size req))]
                                               (req_ip req) (req_userAgent req)) w4)))))))"

definition updateDocument :: "env \<Rightarrow> user \<Rightarrow> request \<Rightarrow> document \<Rightarrow> world \<Rightarrow> response result" where
  "updateDocument env usr req document w =
     (if doc_status document \<noteq> draft
      then (Inl (AppError ''Cannot update document after it has been sent.'' 400), w)
      else
        let d1 = (if present (body_title req)
                  then document\<lparr>doc_title := map_option trim (body_title req)\<rparr> else document);
            d2 = (if present (body_description req)
                  then d1\<lparr>doc_description := map_option trim (body_description req)\<rparr> else d1)
        in (case body_signers req of
              Malformed \<Rightarrow> (Inl (AppError ''Invalid signers format.'' 400), w)
            | signersField \<Rightarrow>
                let d3 = (case signersField of Parsed ss \<Rightarrow> d2\<lparr>doc_signers := ss\<rparr> | _ \<Rightarrow> d2)
                in (case Document_save env False d3 w of
                      (Inl e, w1) \<Rightarrow> (Inl e, w1)
                    | (Inr d4, w1) \<Rightarrow>
                        (Inr (Response 200 ''Document updated successfully'' (Some d4) None),
                         AuditLog_log
                           (auditEntry env (Some (user_id usr)) (Some (doc_id d4)) ''document_updated''
                              [] (req_ip req) (req_userAgent req)) w1))))"

text \<open>
  The loop of \<open>sendDocument\<close>: for each signer the stored token is looked up with
  \<open>getToken(document._id, signer.email)\<close> and interpolated into the signing URL.
\<close>

fun sendSigningRequests :: "env \<Rightarrow> document \<Rightarrow> objectId \<Rightarrow> signer list \<Rightarrow> world \<Rightarrow> unit result" where
  "sendSigningRequests env document oid [] w = (Inr (), w)"
| "sendSigningRequests env document oid (s # ss) w =
     (let token = getToken (tokens w) oid (signer_email s);
          signingUrl = env_BASE_URL env @ ''/api/sign/'' @ orNull token
      in (case sendSigningRequest env (signer_email s) (doc_title document) signingUrl w of
            (Inl e, w1) \<Rightarrow> (Inl e, w1)
          | (Inr _, w1) \<Rightarrow> sendSigningRequests env document oid ss w1))"

text \<open>
  \<open>req.document\<close> was loaded by the middleware of this request: its \<open>_id\<close> is an object
  created by that load, with the identity \<open>nextRef w\<close>, which no stored object has.
\<close>

definition sendDocument :: "env \<Rightarrow> user \<Rightarrow> request \<Rightarrow> document \<Rightarrow> world \<Rightarrow> response result" where
  "sendDocument env usr req document w =
     (if doc_status document \<noteq> draft
      then (Inl (AppError ''Document has already been sent or signed.'' 400), w)
      else if doc_signers document = []
      then (Inl (AppError ''Please add at least one signer before sending.'' 400), w)
      else
        (case Document_save env True (document\<lparr>doc_status := sent\<rparr>) w of
           (Inl e, w1) \<Rightarrow> (Inl e, w1)
         | (Inr d1, w1) \<Rightarrow>
             (case sendSigningRequests env d1 (ObjectId (doc_id d1) (nextRef w1)) (doc_signers d1) w1 of
                (Inl e, w2) \<Rightarrow> (Inl e, w2)
              | (Inr _, w2) \<Rightarrow>
                  (Inr (Response 200 ''Document sent for signing successfully'' (Some d1) None),
                   AuditLog_log
                     (auditEntry env (Some (user_id usr)) (Some (doc_id d1)) ''document_sent''
                        [(''signersCount'', MNat (length (doc_signers d1))),
                         (''signers'', MStrs (map signer_email (doc_signers d1)))]
                        (req_ip req) (req_userAgent req)) w2))))"

text \<open>
  \<open>rejectDocument\<close>: \<open>document.owner\<close> is an unpopulated ObjectId, so the recipient
  \<open>document.owner.email\<close> is \<open>undefined\<close>.
\<close>

definition rejectDocument :: "env \<Rightarrow> user \<Rightarrow> request \<Rightarrow> document \<Rightarrow> world \<Rightarrow> response result" where
  "rejectDocument env usr req document w =
     (if doc_status document \<noteq> sent
      then (Inl (AppError ''Document must be in sent status to reject.'' 400), w)
      else
        (case Document_save env True
                (document\<lparr>doc_status := rejected, doc_rejectionReason := body_reason req\<rparr>) w of
           (Inl e, w1) \<Rightarrow> (Inl e, w1)
         | (Inr d1, w1) \<Rightarrow>
             (case sendRejectionNotification env None (doc_title d1) w1 of
                (Inl e, w2) \<Rightarrow> (Inl e, w2)
              | (Inr _, w2) \<Rightarrow>
                  (Inr (Response 200 ''Document rejected successfully'' (Some d1) None),
                   AuditLog_log
                     (auditEntry env (Some (user_id usr)) (Some (doc_id d1)) ''document_rejected''
                        [(''reason'', MStr (body_reason req))]
                        (req_ip req) (req_userAgent req)) w2))))"

text \<open>
  \<open>deleteDocument\<close>: \<open>unlinkSync\<close> of a missing file throws inside the \<open>try\<close>, which
  skips the rest of the block; the record is deleted either way.
\<close>

definition unlinkFiles :: "document \<Rightarrow> (string, string) jsmap \<Rightarrow> (string, string) jsmap" where
  "unlinkFiles document fs =
     (let afterOriginal =
            (if doc_originalFile_path document \<noteq> []
             then (case jsmap_get fs (doc_originalFile_path document) of
                     None \<Rightarrow> None
                   | Some _ \<Rightarrow> Some (jsmap_delete fs (doc_originalFile_path document)))
             else Some fs)
      in (case afterOriginal of
            None \<Rightarrow> fs
          | Some fs1 \<Rightarrow>
              (case doc_signedFile document of
                 None \<Rightarrow> fs1
               | Some sf \<Rightarrow> if sf_path sf \<noteq> [] then jsmap_delete fs1 (sf_path sf) else fs1)))"

definition deleteDocument :: "env \<Rightarrow> user \<Rightarrow> request \<Rightarrow> document \<Rightarrow> world \<Rightarrow> response result" where
  "deleteDocument env usr req document w =
     (if doc_status document \<noteq> draft
      then (Inl (AppError ''Cannot delete document after it has been sent.'' 400), w)
      else
        let w1 = w\<lparr>files := unlinkFiles document (files w)\<rparr>;
            w2 = Document_findByIdAndDelete (doc_id document) w1
        in (Inr (Response 200 ''Document deleted successfully'' None None),
            AuditLog_log
              (auditEntry env (Some (user_id usr)) (Some (doc_id document)) ''document_deleted''
                 [(''title'', MStr (doc_title document))]
                 (req_ip req) (req_userAgent req)) w2))"


section \<open>The signature controller\<close>

text \<open>
  \<open>!position || !position.pageNumber || position.x === undefined || position.y === undefined\<close>
\<close>

definition positionMissing :: "position option \<Rightarrow> bool" where
  "positionMissing p =
     (case p of
        None \<Rightarrow> True
      | Some pos \<Rightarrow>
          (pos_pageNumber pos = None \<or> pos_pageNumber pos = Some 0)
          \<or> pos_x pos = None \<or> pos_y pos = None)"

text \<open>
  The signature payload: the uploaded file, read as base64 and then unlinked, or the
  non-empty string of the body. Both controllers have this block.
\<close>

definition readSignatureData :: "env \<Rightarrow> string option \<Rightarrow> string option \<Rightarrow> world \<Rightarrow> string result" where
  "readSignatureData env file bodyData w =
     (case file of
        Some filePath \<Rightarrow>
          (case jsmap_get (files w) filePath of
             None \<Rightarrow> (Inl (FsError filePath), w)
           | Some bytes \<Rightarrow> (Inr (env_base64 env bytes), w\<lparr>files := jsmap_delete (files w) filePath\<rparr>))
      | None \<Rightarrow>
          (case bodyData of
             None \<Rightarrow> (Inl (AppError ''Signature data is required.'' 400), w)
           | Some signatureData \<Rightarrow>
               if signatureData = [] then (Inl (AppError ''Signature data is required.'' 400), w)
               else (Inr signatureData, w)))"

text \<open>
  The completion block, the same text in both controllers (from
  \<open>const allSigned = document.signers.every(s => s.signed)\<close> to the owner's notification).
  The instance has been saved just before; the result carries \<open>allSigned\<close>.
\<close>

definition completeIfAllSigned :: "env \<Rightarrow> document \<Rightarrow> world \<Rightarrow> (document \<times> bool) result" where
  "completeIfAllSigned env document w =
     (let allSigned = list_all signer_signed (doc_signers document)
      in if \<not> allSigned then (Inr (document, False), w)
         else
           (case generateSignedPDF env (files w) (doc_originalFile_path document)
                   (doc_signatures document) of
              Inl e \<Rightarrow> (Inl e, w)
            | Inr (signedPdfPath, fs1) \<Rightarrow>
                let signedFilename = ''signed-'' @ env_dateString env @ ''.pdf'';
                    signedFilepath = ''uploads/signed/'' @ signedFilename
                in (case jsmap_get fs1 signedPdfPath of
                      None \<Rightarrow> (Inl (FsError signedPdfPath), w\<lparr>files := fs1\<rparr>)
                    | Some bytes \<Rightarrow>
                        let w1 = w\<lparr>files := jsmap_set fs1 signedFilepath bytes\<rparr>;
                            d1 = document
                                   \<lparr>doc_signedFile :=
                                      Some \<lparr>sf_filename = signedFilename, sf_path = signedFilepath,
                                            sf_size = length bytes, sf_signedAt = env_now env\<rparr>,
                                    doc_status := signed\<rparr>
                        in (case Document_save env True d1 w1 of
                              (Inl e, w2) \<Rightarrow> (Inl e, w2)
                            | (Inr d2, w2) \<Rightarrow>
                                (case sendDocumentSignedNotification env None (doc_title d2) w2 of
                                   (Inl e, w3) \<Rightarrow> (Inl e, w3)
                                 | (Inr _, w3) \<Rightarrow> (Inr (d2, True), w3))))))"

text \<open>The two assignments \<open>signer.signed = true; signer.signedAt = new Date()\<close> and the push.\<close>

definition markSigned :: "env \<Rightarrow> string option \<Rightarrow> string \<Rightarrow> document \<Rightarrow> document" where
  "markSigned env email signatureId document =
     document
       \<lparr>doc_signatures := doc_signatures document @ [signatureId],
        doc_signers :=
          updateFirst (\<lambda>s. signer_email s = email)
            (\<lambda>s. s\<lparr>signer_signed := True, signer_signedAt := Some (env_now env)\<rparr>)
            (doc_signers document)\<rparr>"

definition addSignature :: "env \<Rightarrow> request \<Rightarrow> world \<Rightarrow> response result" where
  "addSignature env req w =
     (case Document_findById w (body_documentId req) of
        None \<Rightarrow> (Inl (AppError ''Document not found.'' 404), w)
      | Some document \<Rightarrow>
          if doc_status document \<noteq> sent
          then (Inl (AppError ''Document is not ready for signing.'' 400), w)
          else
            (case find (\<lambda>s. signer_email s = body_signerEmail req) (doc_signers document) of
               None \<Rightarrow> (Inl (AppError ''You are not authorized to sign this document.'' 403), w)
             | Some signer \<Rightarrow>
                 if signer_signed signer
                 then (Inl (AppError ''You have already signed this document.'' 400), w)
                 else if positionMissing (body_position req)
                 then (Inl (AppError ''Signature position is required.'' 400), w)
                 else
                   (case readSignatureData env (req_file req) (body_signatureData req) w of
                      (Inl e, w1) \<Rightarrow> (Inl e, w1)
                    | (Inr signatureData, w1) \<Rightarrow>
                        (case Signature_create env
                                \<lparr>in_documentId = doc_id document,
                                 in_signerEmail = body_signerEmail req,
                                 in_signerName = body_signerName req,
                                 in_signatureData = Some signatureData,
                                 in_signatureType = body_signatureType req,
                                 in_position = body_position req,
                                 in_ipAddress = req_ip req,
                                 in_userAgent = req_userAgent req\<rparr> w1 of
                           (Inl e, w2) \<Rightarrow> (Inl e, w2)
                         | (Inr signature, w2) \<Rightarrow>
                             (case Document_save env False
                                     (markSigned env (body_signerEmail req) (sig_id signature) document)
                                     w2 of
                                (Inl e, w3) \<Rightarrow> (Inl e, w3)
                              | (Inr document2, w3) \<Rightarrow>
                                  (case completeIfAllSigned env document2 w3 of
                                     (Inl e, w4) \<Rightarrow> (Inl e, w4)
                                   | (Inr (document3, allSigned), w4) \<Rightarrow>
                                       (Inr (Response 201 ''Signature added successfully''
                                               (Some document3) (Some signature)),
                                        AuditLog_log
                                          (auditEntry env (map_option user_id (req_user req))
                                             (Some (doc_id document3)) ''signature_added''
                                             [(''signerEmail'', MStr (body_signerEmail req)),
                                              (''signerName'', MStr (body_signerName req)),
                                              (''allSigned'', MBool allSigned)]
                                             (req_ip req) (req_userAgent req)) w4)))))))"

text \<open>\<open>name || signer.name\<close> and \<open>signatureType || 'draw'\<close>.\<close>

definition orElse :: "string option \<Rightarrow> string option \<Rightarrow> string option" where
  "orElse a b = (if present a then a else b)"

definition signWithToken :: "env \<Rightarrow> request \<Rightarrow> world \<Rightarrow> response result" where
  "signWithToken env req w =
     (case verifyToken (env_now env) (tokens w) (params_token req) of
        (None, ts) \<Rightarrow> (Inl (AppError ''Invalid or expired token.'' 400), w\<lparr>tokens := ts\<rparr>)
      | (Some (documentId, email), ts) \<Rightarrow>
          let w0 = w\<lparr>tokens := ts\<rparr>
          in (case Document_findById w0 (hexString documentId) of
                None \<Rightarrow> (Inl (AppError ''Document not found.'' 404), w0)
              | Some document \<Rightarrow>
                  if doc_status document \<noteq> sent
                  then (Inl (AppError ''Document is not ready for signing.'' 400), w0)
                  else
                    (case find (\<lambda>s. signer_email s = email) (doc_signers document) of
                       None \<Rightarrow>
                         (Inl (AppError ''You are not authorized to sign this document.'' 403), w0)
                     | Some signer \<Rightarrow>
                         if signer_signed signer
                         then (Inl (AppError ''You have already signed this document.'' 400), w0)
                         else
                           (case readSignatureData env (req_file req) (body_signatureData req) w0 of
                              (Inl e, w1) \<Rightarrow> (Inl e, w1)
                            | (Inr signatureImageData, w1) \<Rightarrow>
                                (case Signature_create env
                                        \<lparr>in_documentId = doc_id document,
                                         in_signerEmail = email,
                                         in_signerName = orElse (body_name req) (signer_name signer),
                                         in_signatureData = Some signatureImageData,
                                         in_signatureType =
                                           orElse (body_signatureType req) (Some ''draw''),
                                         in_position = body_position req,
                                         in_ipAddress = req_ip req,
                                         in_userAgent = req_userAgent req\<rparr> w1 of
                                   (Inl e, w2) \<Rightarrow> (Inl e, w2)
                                 | (Inr signature, w2) \<Rightarrow>
                                     let w3 = w2\<lparr>tokens := invalidateToken (tokens w2) (params_token req)\<rparr>
                                     in (case Document_save env False
                                               (markSigned env email (sig_id signature) document) w3 of
                                           (Inl e, w4) \<Rightarrow> (Inl e, w4)
                                         | (Inr document2, w4) \<Rightarrow>
                                             (case completeIfAllSigned env document2 w4 of
                                                (Inl e, w5) \<Rightarrow> (Inl e, w5)
                                              | (Inr (document3, allSigned), w5) \<Rightarrow>
                                                  (Inr (Response 201 ''Document signed successfully''
                                                          (Some document3) (Some signature)),
                                                   AuditLog_log
                                                     (auditEntry env None (Some (doc_id document3))
                                                        ''signature_added''
                                                        [(''signerEmail'', MStr email),
                                                         (''signerName'',
                                                          MStr (orElse (body_name req) (signer_name signer))),
                                                         (''allSigned'', MBool allSigned),
                                                         (''viaToken'', MBool True)]
                                                        (req_ip req) (req_userAgent req)) w5))))))))"

text \<open>
  \<open>verifySignature\<close>: the signature with its document populated; when the document has a
  signed file, the file is hashed and the digest compared with \<open>metadata.fileHash\<close>, the
  digest \<open>uploadDocument\<close> took of the original file.
\<close>

definition verifySignature :: "env \<Rightarrow> request \<Rightarrow> world \<Rightarrow> response result" where
  "verifySignature env req w =
     (case Signature_findById w (params_signatureId req) of
        None \<Rightarrow> (Inl (AppError ''Signature not found.'' 404), w)
      | Some signature \<Rightarrow>
          (case Document_findById w (sig_documentId signature) of
             None \<Rightarrow> (Inl (TypeError ''Cannot read properties of null''), w)
           | Some document \<Rightarrow>
               (case doc_signedFile document of
                  None \<Rightarrow> (Inr (Verification signature (sig_isVerified signature) True), w)
                | Some sf \<Rightarrow>
                    if sf_path sf = []
                    then (Inr (Verification signature (sig_isVerified signature) True), w)
                    else
                      (case jsmap_get (files w) (sf_path sf) of
                         None \<Rightarrow> (Inl (FsError (sf_path sf)), w)
                       | Some fileBuffer \<Rightarrow>
                           let currentHash = env_sha256 env fileBuffer;
                               isDocumentIntact = (currentHash = doc_fileHash document)
                           in (Inr (Verification signature
                                      (sig_isVerified signature \<and> isDocumentIntact)
                                      isDocumentIntact), w)))))"

section \<open>The routes\<close>

text \<open>
  The exposed lifecycle operations, as \<open>routes/documentRoutes.js\<close> and
  \<open>routes/signatureRoutes.js\<close> mount them: the middleware chain, then the controller.
\<close>

datatype operation =
  OpUpload | OpUpdate | OpSend | OpReject | OpDelete | OpAddSignature | OpSignWithToken

definition withOwnedDocument ::
  "(user \<Rightarrow> request \<Rightarrow> document \<Rightarrow> world \<Rightarrow> response result) \<Rightarrow> request \<Rightarrow> world \<Rightarrow> response result" where
  "withOwnedDocument controller req w =
     (case protect req of
        Inl e \<Rightarrow> (Inl e, w)
      | Inr usr \<Rightarrow>
          (case checkDocumentOwnership usr (params_id req) w of
             Inl e \<Rightarrow> (Inl e, w)
           | Inr document \<Rightarrow> controller usr req document w))"

fun perform :: "env \<Rightarrow> operation \<Rightarrow> request \<Rightarrow> world \<Rightarrow> response result" where
  "perform env OpUpload req w =
     (case protect req of
        Inl e \<Rightarrow> (Inl e, w)
      | Inr usr \<Rightarrow>
          (case uploadDocumentMiddleware req of
             Inl e \<Rightarrow> (Inl e, w)
           | Inr _ \<Rightarrow> uploadDocument env usr req w))"
| "perform env OpUpdate req w = withOwnedDocument (updateDocument env) req w"
| "perform env OpSend req w = withOwnedDocument (sendDocument env) req w"
| "perform env OpReject req w = withOwnedDocument (rejectDocument env) req w"
| "perform env OpDelete req w = withOwnedDocument (deleteDocument env) req w"
| "perform env OpAddSignature req w =
     (case protect req of
        Inl e \<Rightarrow> (Inl e, w)
      | Inr usr \<Rightarrow>
          (case uploadSignature req of
             Inl e \<Rightarrow> (Inl e, w)
           | Inr _ \<Rightarrow> addSignature env req w))"
| "perform env OpSignWithToken req w =
     (case uploadSignature req of
        Inl e \<Rightarrow> (Inl e, w)
      | Inr _ \<Rightarrow> signWithToken env req w)"


section \<open>The lifecycle, as the claims state it\<close>

text \<open>
  The edges of the status graph and the operation that takes each; the status an operation
  requires of the document it is invoked on; and the document an operation is invoked on,
  once its middleware and its lookup have let the request through.
\<close>

definition transition :: "operation \<Rightarrow> status \<Rightarrow> status \<Rightarrow> bool" where
  "transition op a b =
     ((op = OpSend \<and> a = draft \<and> b = sent)
      \<or> (op = OpReject \<and> a = sent \<and> b = rejected)
      \<or> ((op = OpAddSignature \<or> op = OpSignWithToken) \<and> a = sent \<and> b = signed))"

definition lifecycleStep :: "operation \<Rightarrow> document option \<Rightarrow> document option \<Rightarrow> bool" where
  "lifecycleStep op before after =
     (case before of
        Some d \<Rightarrow>
          (case after of
             Some d' \<Rightarrow> doc_status d' = doc_status d \<or> transition op (doc_status d) (doc_status d')
           | None \<Rightarrow> op = OpDelete \<and> doc_status d = draft)
      | None \<Rightarrow>
          (case after of
             Some d' \<Rightarrow> op = OpUpload \<and> doc_status d' = draft
           | None \<Rightarrow> True))"

fun requiredStatus :: "operation \<Rightarrow> status option" where
  "requiredStatus OpUpload = None"
| "requiredStatus OpUpdate = Some draft"
| "requiredStatus OpSend = Some draft"
| "requiredStatus OpReject = Some sent"
| "requiredStatus OpDelete = Some draft"
| "requiredStatus OpAddSignature = Some sent"
| "requiredStatus OpSignWithToken = Some sent"

definition ownedDocument :: "request \<Rightarrow> world \<Rightarrow> document option" where
  "ownedDocument req w =
     (case protect req of
        Inl e \<Rightarrow> None
      | Inr usr \<Rightarrow>
          (case checkDocumentOwnership usr (params_id req) w of
             Inl e \<Rightarrow> None
           | Inr document \<Rightarrow> Some document))"

fun targetDocument :: "env \<Rightarrow> operation \<Rightarrow> request \<Rightarrow> world \<Rightarrow> document option" where
  "targetDocument env OpUpload req w = None"
| "targetDocument env OpUpdate req w = ownedDocument req w"
| "targetDocument env OpSend req w = ownedDocument req w"
| "targetDocument env OpReject req w = ownedDocument req w"
| "targetDocument env OpDelete req w = ownedDocument req w"
| "targetDocument env OpAddSignature req w =
     (if req_user req = None \<or> req_file req = None then None
      else Document_findById w (body_documentId req))"
| "targetDocument env OpSignWithToken req w =
     (if req_file req = None then None
      else (case fst (verifyToken (env_now env) (tokens w) (params_token req)) of
              None \<Rightarrow> None
            | Some (documentId, email) \<Rightarrow> Document_findById w (hexString documentId)))"

section \<open>A run of the program\<close>

text \<open>
  Alice uploads a contract for Ann and Bob, sends it, and the two sign through their token
  links. \<open>exSha256\<close> holds the SHA-256 digests of the strings the run hashes.
\<close>

definition tokenA :: string where
  "tokenA = ''3f3f3f3f3f3f3f3f3f3f3f3f3f3f3f3f3f3f3f3f3f3f3f3f3f3f3f3f3f3f3f3f''"

definition tokenB :: string where
  "tokenB = ''a7a7a7a7a7a7a7a7a7a7a7a7a7a7a7a7a7a7a7a7a7a7a7a7a7a7a7a7a7a7a7a7''"

definition tokenC :: string where
  "tokenC = ''c5c5c5c5c5c5c5c5c5c5c5c5c5c5c5c5c5c5c5c5c5c5c5c5c5c5c5c5c5c5c5c5''"

definition docId :: string where
  "docId = ''65a1f0c2b3d4e5f6a7b8c9d1''"

definition exSha256 :: "string \<Rightarrow> string" where
  "exSha256 s =
     (if s = tokenA then ''67ef9de3b81d374fd9cb2d95844f2db27236cdedb89a36f68d9f18c0091b6cf2''
      else if s = tokenB then ''9921d3e0b65c801d2273fb20cc7bcc57e7782c46692479f6f1502cdf65ba098f''
      else if s = tokenC then ''671412d3c2129c7380880f3f8a049d359e9eab4dee11ecf24308e90a72219da8''
      else if s = ''%PDF-1.4 original''
        then ''e191ad4ba1256190b4b70eaa5dbb2123d15d85fce22a76f2de3fd7dfb38b7992''
      else if s = ''%PDF-1.4 signed''
        then ''8ed74dd5bdcfb6b5db56a79b93609e87b93bc8234fb6037e7ff070922fd5104b''
      else ''e3b0c44298fc1c149afbf4c8996fb92427ae41e4649b934ca495991b7852b855'')"

definition exEnv :: "int \<Rightarrow> string \<Rightarrow> env" where
  "exEnv now newId =
     \<lparr>env_now = now, env_dateString = ''1700000000000'',
      env_randomBytes = (\<lambda>k. if k = 0 then tokenA else if k = 1 then tokenB else tokenC),
      env_newObjectId = newId,
      env_sha256 = exSha256,
      env_base64 = (\<lambda>s. ''UE5HLWluaw==''),
      env_sendMail = (\<lambda>m. True),
      env_pdfLoad = (\<lambda>b. Some 1),
      env_pdfSave = (\<lambda>b. ''%PDF-1.4 signed''),
      env_BASE_URL = ''https://sign.example''\<rparr>"

definition alice :: user where
  "alice = \<lparr>user_id = ''65a1f0c2b3d4e5f6a7b8c9a0'', user_name = ''Alice'',
            user_email = ''alice@x.io'', user_role = ''user''\<rparr>"

definition newSigner :: "string \<Rightarrow> string \<Rightarrow> signer" where
  "newSigner n e =
     \<lparr>signer_name = Some n, signer_email = Some e, signer_signed = False,
      signer_signedAt = None, signer_signatureToken = None, signer_tokenExpires = None\<rparr>"

definition emptyReq :: request where
  "emptyReq =
     \<lparr>req_user = None, req_ip = None, req_userAgent = None, req_file = None, req_file_size = 0,
      params_id = [], params_token = [], params_signatureId = [],
      body_title = None, body_description = None, body_signers = Absent, body_reason = None,
      body_documentId = [], body_signerEmail = None, body_signerName = None,
      body_position = None, body_signatureType = None, body_signatureData = None,
      body_name = None\<rparr>"

definition world0 :: world where
  "world0 =
     Signature_init
       \<lparr>documents = [], signatureDocs = [], signatureIndexes = [], auditLogs = [], tokens = [],
        files = [(''uploads/original/document-1.pdf'', ''%PDF-1.4 original''),
                 (''uploads/signed/signature-1.png'', ''PNG-ink''),
                 (''uploads/signed/signature-2.png'', ''PNG-ink'')],
        outbox = [], nextRef = 0\<rparr>"

definition uploadReq :: request where
  "uploadReq =
     emptyReq\<lparr>req_user := Some alice, req_file := Some ''uploads/original/document-1.pdf'',
              req_file_size := 17, body_title := Some ''Contract'',
              body_signers := Parsed [newSigner ''Ann'' ''ann@x.io'', newSigner ''Bob'' ''bob@x.io'']\<rparr>"

definition world1 :: world where
  "world1 = snd (perform (exEnv 1000 docId) OpUpload uploadReq world0)"

definition sendReq :: request where
  "sendReq = emptyReq\<lparr>req_user := Some alice, params_id := docId\<rparr>"

definition world2 :: world where
  "world2 = snd (perform (exEnv 2000 []) OpSend sendReq world1)"

definition signReq :: "string \<Rightarrow> string \<Rightarrow> request" where
  "signReq token file =
     emptyReq\<lparr>params_token := token, req_file := Some file,
              body_position := Some \<lparr>pos_pageNumber = Some 1, pos_x = Some 10, pos_y = Some 20,
                                     pos_width = None, pos_height = None\<rparr>\<rparr>"

definition world3 :: world where
  "world3 = snd (perform (exEnv 3000 ''65a1f0c2b3d4e5f6a7b8c9e1'') OpSignWithToken
                   (signReq tokenA ''uploads/signed/signature-1.png'') world2)"

definition world4 :: world where
  "world4 = snd (perform (exEnv 4000 ''65a1f0c2b3d4e5f6a7b8c9e2'') OpSignWithToken
                   (signReq tokenB ''uploads/signed/signature-2.png'') world3)"

text \<open>
  The same submission through the authenticated route, for Bob, in the state where only
  Ann has signed.
\<close>

definition addReq :: request where
  "addReq =
     (signReq [] ''uploads/signed/signature-2.png'')
       \<lparr>req_user := Some alice, body_documentId := docId,
        body_signerEmail := Some ''bob@x.io'', body_signerName := Some ''Bob''\<rparr>"

definition world4' :: world where
  "world4' = snd (perform (exEnv 4000 ''65a1f0c2b3d4e5f6a7b8c9e2'') OpAddSignature addReq world3)"

text \<open>
  A second run, from the same empty database: Alice names two signers whose addresses differ
  only in the case of their letters, and a third signer; she sends the document, and the
  first two sign through the authenticated route.
\<close>

definition twinsReq :: request where
  "twinsReq =
     uploadReq\<lparr>body_signers := Parsed [newSigner ''Bob'' ''bob@x.io'', newSigner ''Bobby'' ''Bob@X.io'',
                                        newSigner ''Carol'' ''carol@x.io'']\<rparr>"

definition twins2 :: world where
  "twins2 = snd (perform (exEnv 2000 []) OpSend sendReq
                   (snd (perform (exEnv 1000 docId) OpUpload twinsReq world0)))"

definition bobReq :: request where
  "bobReq = addReq\<lparr>req_file := Some ''uploads/signed/signature-1.png''\<rparr>"

definition bobbyReq :: request where
  "bobbyReq = addReq\<lparr>body_signerEmail := Some ''Bob@X.io'', body_signerName := Some ''Bobby''\<rparr>"

definition twins3 :: world where
  "twins3 = snd (perform (exEnv 3000 ''65a1f0c2b3d4e5f6a7b8c9e1'') OpAddSignature bobReq twins2)"

definition twins4 :: world where
  "twins4 = snd (perform (exEnv 4000 ''65a1f0c2b3d4e5f6a7b8c9e2'') OpAddSignature bobbyReq twins3)"

definition retryReq :: request where
  "retryReq = addReq\<lparr>req_file := Some ''uploads/signed/signature-3.png''\<rparr>"

section \<open>Notions the statements and the proofs use\<close>

text \<open>
  A token-based submission is accepted when it passes every check of \<open>signWithToken\<close>, in
  the order of the source: the token verifies, the document exists and is \<open>sent\<close>, the
  signer of the token is a signer of the document and has not signed, a payload is present,
  and \<open>Signature.create\<close> validates and stores the record.
\<close>

definition tokenSubmissionAccepted :: "env \<Rightarrow> request \<Rightarrow> world \<Rightarrow> bool" where
  "tokenSubmissionAccepted env req w =
     (case verifyToken (env_now env) (tokens w) (params_token req) of
        (None, ts) \<Rightarrow> False
      | (Some (documentId, email), ts) \<Rightarrow>
          (case Document_findById w (hexString documentId) of
             None \<Rightarrow> False
           | Some document \<Rightarrow>
               doc_status document = sent
               \<and> (case find (\<lambda>s. signer_email s = email) (doc_signers document) of
                     None \<Rightarrow> False
                   | Some signer \<Rightarrow>
                       \<not> signer_signed signer
                       \<and> (case readSignatureData env (req_file req) (body_signatureData req) w of
                             (Inl e, w1) \<Rightarrow> False
                           | (Inr signatureImageData, w1) \<Rightarrow>
                               \<not> isl (fst (Signature_create env
                                      \<lparr>in_documentId = doc_id document,
                                       in_signerEmail = email,
                                       in_signerName = orElse (body_name req) (signer_name signer),
                                       in_signatureData = Some signatureImageData,
                                       in_signatureType =
                                         orElse (body_signatureType req) (Some ''draw''),
                                       in_position = body_position req,
                                       in_ipAddress = req_ip req,
                                       in_userAgent = req_userAgent req\<rparr> w1))))))"


text \<open>
  For the proofs: a Document collection in which the record \<open>i\<close> was replaced by one of
  status \<open>st\<close>; a Signature collection that grew by one \<open>Signature.create\<close>; a token
  entry as \<open>uploadDocument\<close> stores it.
\<close>

definition docsStep :: "document list \<Rightarrow> document list \<Rightarrow> string \<Rightarrow> status \<Rightarrow> bool" where
  "docsStep ds ds' i st = (\<exists>d'. doc_id d' = i \<and> doc_status d' = st \<and> ds' = replaceById d' ds)"

definition created :: "world \<Rightarrow> world \<Rightarrow> bool" where
  "created w w' =
     (\<exists>env i w1 s w2. Signature_create env i w1 = (Inr s, w2)
        \<and> signatureDocs w1 = signatureDocs w \<and> signatureDocs w' = signatureDocs w2)"

definition minted :: "env \<Rightarrow> objectId \<Rightarrow> tokenData \<Rightarrow> bool" where
  "minted env oid td =
     (tok_documentId td = oid \<and> \<not> tok_used td
      \<and> tok_expiresAt td = env_now env + sevenDays * 1000)"

text \<open>
  The steps both signing controllers take once the Signature is stored: save the marked
  document, complete if all have signed, answer and log. \<open>reply\<close> and \<open>entry\<close> build the
  answer and the audit entry of the controller.
\<close>

definition finishSubmission :: "env \<Rightarrow> (document \<Rightarrow> bool \<Rightarrow> response) \<Rightarrow> (document \<Rightarrow> bool \<Rightarrow> auditLog)
    \<Rightarrow> document \<Rightarrow> world \<Rightarrow> response result" where
  "finishSubmission env reply entry m w =
     (case Document_save env False m w of
        (Inl e, w3) \<Rightarrow> (Inl e, w3)
      | (Inr document2, w3) \<Rightarrow>
          (case completeIfAllSigned env document2 w3 of
             (Inl e, w4) \<Rightarrow> (Inl e, w4)
           | (Inr (document3, allSigned), w4) \<Rightarrow>
               (Inr (reply document3 allSigned), AuditLog_log (entry document3 allSigned) w4)))"

section \<open>Stores\<close>

lemma jsmap_get_delete: "jsmap_get (jsmap_delete m k) k = None"
  by (induction m) (auto simp: jsmap_delete_def)

lemma jsmap_get_set_same: "jsmap_get (jsmap_set m k v) k = Some v"
  by (induction m) auto

lemma jsmap_get_set_other: "k' \<noteq> k \<Longrightarrow> jsmap_get (jsmap_set m k v) k' = jsmap_get m k'"
  by (induction m) auto

lemma keys_set_existing:
  "jsmap_get m k = Some v \<Longrightarrow> map fst (jsmap_set m k v') = map fst m"
  by (induction m) (auto split: if_splits)

lemma keys_invalidate: "map fst (invalidateToken ts token) = map fst ts"
  by (cases "jsmap_get ts token") (simp_all add: invalidateToken_def keys_set_existing)

lemma keys_delete: "set (map fst (jsmap_delete m k)) \<subseteq> set (map fst m)"
  by (auto simp: jsmap_delete_def)

lemma jsmap_get_invalidate:
  "jsmap_get ts token = Some td \<Longrightarrow>
   jsmap_get (invalidateToken ts token) token = Some (td\<lparr>tok_used := True\<rparr>)"
  by (simp add: invalidateToken_def jsmap_get_set_same)

lemma verifyToken_Some: "verifyToken now ts tok = (Some x, ts') \<Longrightarrow> ts' = ts"
  by (auto simp: verifyToken_def split: option.splits if_splits)

lemma verifyToken_None:
  "verifyToken now ts tok = (None, ts') \<Longrightarrow> ts' = ts \<or> ts' = jsmap_delete ts tok"
  by (auto simp: verifyToken_def split: option.splits if_splits)

lemma verify_after_invalidate:
  "fst (verifyToken now' (invalidateToken ts token) token) = None"
  by (cases "jsmap_get ts token")
     (auto simp: verifyToken_def invalidateToken_def jsmap_get_set_same split: option.splits)

lemma preSave_fields:
  "doc_id (preSave env m d) = doc_id d"
  "doc_status (preSave env m d) = doc_status d"
  "doc_signers (preSave env m d) = doc_signers d"
  "doc_signedFile (preSave env m d) = doc_signedFile d"
  "doc_signatures (preSave env m d) = doc_signatures d"
  "doc_originalFile_path (preSave env m d) = doc_originalFile_path d"
  "doc_title (preSave env m d) = doc_title d"
  by (simp_all add: preSave_def)

lemma markSigned_fields:
  "doc_id (markSigned env e s d) = doc_id d"
  "doc_status (markSigned env e s d) = doc_status d"
  "doc_signedFile (markSigned env e s d) = doc_signedFile d"
  by (simp_all add: markSigned_def)

lemma findById_id: "Document_findById w i = Some d \<Longrightarrow> doc_id d = i"
  unfolding Document_findById_def by (induction "documents w" arbitrary: w) (auto dest: find_Some_iff[THEN iffD1])

lemma findById_self: "Document_findById w i = Some d \<Longrightarrow> Document_findById w (doc_id d) = Some d"
  using findById_id by fastforce

lemma find_replaceById:
  "find (\<lambda>d. doc_id d = j) (replaceById d' ds) =
     (if j = doc_id d' then (case find (\<lambda>d. doc_id d = j) ds of None \<Rightarrow> None | Some x \<Rightarrow> Some d')
      else find (\<lambda>d. doc_id d = j) ds)"
  by (induction ds) (auto simp: replaceById_def)

lemma replaceById_twice:
  "doc_id d2 = doc_id d1 \<Longrightarrow> replaceById d2 (replaceById d1 ds) = replaceById d2 ds"
  by (induction ds) (auto simp: replaceById_def)

lemma find_append_last:
  "find P (xs @ [y]) = (case find P xs of Some x \<Rightarrow> Some x | None \<Rightarrow> if P y then Some y else None)"
  by (induction xs) auto

lemma find_filter_other:
  "find (\<lambda>d. doc_id d = j) (filter (\<lambda>d. doc_id d \<noteq> i) ds) =
     (if j = i then None else find (\<lambda>d. doc_id d = j) ds)"
  by (induction ds) auto

lemma find_new:
  assumes "find (\<lambda>d. doc_id d = n) ds = None" "doc_id d1 = n" "doc_id d3 = n"
  shows "find (\<lambda>d. doc_id d = i) (ds @ [d1]) = (if i = n then Some d1 else find (\<lambda>d. doc_id d = i) ds)"
    and "find (\<lambda>d. doc_id d = i) (replaceById d3 (ds @ [d1]))
           = (if i = n then Some d3 else find (\<lambda>d. doc_id d = i) ds)"
  using assms by (auto simp: find_append_last find_replaceById split: option.splits)


lemma find_updateFirst:
  "find P xs = Some x \<Longrightarrow> (\<And>y. P y \<Longrightarrow> P (f y)) \<Longrightarrow> find P (updateFirst P f xs) = Some (f x)"
  by (induction xs) (auto split: if_splits)

lemma Document_save_cases:
  "Document_save env m d w = (r, w') \<Longrightarrow>
     (\<exists>e. r = Inl e \<and> w' = w)
     \<or> (r = Inr (preSave env m d) \<and> Document_findById w (doc_id d) \<noteq> None
        \<and> w' = w\<lparr>documents := replaceById (preSave env m d) (documents w)\<rparr>)"
  by (auto simp: Document_save_def Let_def split: if_splits)

section \<open>What each step leaves untouched\<close>

lemma sendMail_frame:
  "sendMail env m w = (r, w') \<Longrightarrow>
     documents w' = documents w \<and> tokens w' = tokens w \<and> signatureDocs w' = signatureDocs w
     \<and> nextRef w' = nextRef w \<and> files w' = files w \<and> auditLogs w' = auditLogs w"
  by (auto simp: sendMail_def split: if_splits)

lemma AuditLog_log_frame:
  "documents (AuditLog_log e w) = documents w"
  "tokens (AuditLog_log e w) = tokens w"
  "signatureDocs (AuditLog_log e w) = signatureDocs w"
  "files (AuditLog_log e w) = files w"
  "nextRef (AuditLog_log e w) = nextRef w"
  by (simp_all add: AuditLog_log_def)

lemma readSignatureData_frame:
  "readSignatureData env f b w = (r, w') \<Longrightarrow>
     documents w' = documents w \<and> tokens w' = tokens w \<and> signatureDocs w' = signatureDocs w
     \<and> nextRef w' = nextRef w \<and> auditLogs w' = auditLogs w"
  by (auto simp: readSignatureData_def split: option.splits if_splits)

lemma readSignatureData_Inl:
  "readSignatureData env f b w = (Inl e, w') \<Longrightarrow>
     w' = w \<and> ((\<exists>p. e = FsError p) \<or> e = AppError ''Signature data is required.'' 400)"
  by (auto simp: readSignatureData_def split: option.splits if_splits)

lemma Signature_create_frame:
  "Signature_create env i w = (r, w') \<Longrightarrow>
     documents w' = documents w \<and> tokens w' = tokens w \<and> files w' = files w
     \<and> nextRef w' = nextRef w \<and> auditLogs w' = auditLogs w"
  by (auto simp: Signature_create_def Let_def split: if_splits)

lemma Signature_create_Inl:
  "Signature_create env i w = (Inl e, w') \<Longrightarrow>
     w' = w \<and> (e = ValidationError ''Signature validation failed'' \<or> e = DuplicateKeyError)"
  by (auto simp: Signature_create_def Let_def split: if_splits)


lemma sendSigningRequests_frame:
  "sendSigningRequests env d oid ss w = (r, w') \<Longrightarrow>
     documents w' = documents w \<and> tokens w' = tokens w \<and> signatureDocs w' = signatureDocs w
     \<and> nextRef w' = nextRef w \<and> files w' = files w \<and> auditLogs w' = auditLogs w"
proof (induction ss arbitrary: w)
  case Nil
  then show ?case by simp
next
  case (Cons s ss)
  obtain r1 w1 where m: "sendSigningRequest env (signer_email s) (doc_title d)
       (env_BASE_URL env @ ''/api/sign/'' @ orNull (getToken (tokens w) oid (signer_email s))) w = (r1, w1)"
    by (cases "sendSigningRequest env (signer_email s) (doc_title d)
       (env_BASE_URL env @ ''/api/sign/'' @ orNull (getToken (tokens w) oid (signer_email s))) w")
  from m have f: "documents w1 = documents w \<and> tokens w1 = tokens w \<and> signatureDocs w1 = signatureDocs w
     \<and> nextRef w1 = nextRef w \<and> files w1 = files w \<and> auditLogs w1 = auditLogs w"
    unfolding sendSigningRequest_def by (rule sendMail_frame)
  show ?case
  proof (cases r1)
    case (Inl e)
    with Cons.prems m f show ?thesis by (simp add: Let_def)
  next
    case (Inr u)
    with Cons.prems m have "sendSigningRequests env d oid ss w1 = (r, w')" by (simp add: Let_def)
    from Cons.IH[OF this] f show ?thesis by simp
  qed
qed


lemma mintTokens_fields:
  "doc_id (fst (mintTokens env oid k es d ts)) = doc_id d
   \<and> doc_status (fst (mintTokens env oid k es d ts)) = doc_status d"
  by (induction es arbitrary: k d ts)
     (auto simp: generateSigningToken_def storeToken_def Let_def split: prod.splits)

section \<open>Steps of the status\<close>

lemma step_same:
  "documents w' = documents w \<Longrightarrow> lifecycleStep op (Document_findById w i) (Document_findById w' i)"
  by (auto simp: lifecycleStep_def Document_findById_def split: option.splits)

lemma step_replaced:
  "Document_findById w (doc_id d') = Some d0 \<Longrightarrow> documents w' = replaceById d' (documents w) \<Longrightarrow>
   doc_status d' = doc_status d0 \<or> transition op (doc_status d0) (doc_status d') \<Longrightarrow>
   lifecycleStep op (Document_findById w i) (Document_findById w' i)"
  by (auto simp: lifecycleStep_def Document_findById_def find_replaceById split: option.splits)

lemma docsStepI: "doc_id d' = i \<Longrightarrow> doc_status d' = st \<Longrightarrow> docsStep ds (replaceById d' ds) i st"
  by (auto simp: docsStep_def)

lemma docsStep_trans: "docsStep ds ds1 i a \<Longrightarrow> docsStep ds1 ds2 i b \<Longrightarrow> docsStep ds ds2 i b"
  by (auto simp: docsStep_def replaceById_twice)


lemma step_docsStep:
  "Document_findById w i0 = Some d0 \<Longrightarrow> docsStep (documents w) (documents w') i0 st \<Longrightarrow>
   st = doc_status d0 \<or> transition op (doc_status d0) st \<Longrightarrow>
   lifecycleStep op (Document_findById w i) (Document_findById w' i)"
  unfolding docsStep_def using step_replaced by metis

lemma step_deleted:
  "Document_findById w i0 = Some d0 \<Longrightarrow> doc_status d0 = draft \<Longrightarrow>
   documents w' = filter (\<lambda>d. doc_id d \<noteq> i0) (documents w) \<Longrightarrow>
   lifecycleStep OpDelete (Document_findById w i) (Document_findById w' i)"
  by (auto simp: lifecycleStep_def Document_findById_def find_filter_other split: option.splits)

lemma createdI:
  "Signature_create env i w1 = (Inr s, w2) \<Longrightarrow> signatureDocs w1 = signatureDocs w \<Longrightarrow>
   signatureDocs w' = signatureDocs w2 \<Longrightarrow> created w w'"
  unfolding created_def by blast


section \<open>Completion\<close>

lemma completeIfAllSigned_docs:
  assumes "completeIfAllSigned env d w = (r, w')"
  shows "(documents w' = documents w \<or> docsStep (documents w) (documents w') (doc_id d) signed)
         \<and> tokens w' = tokens w \<and> signatureDocs w' = signatureDocs w \<and> nextRef w' = nextRef w"
  using assms
  by (auto simp: completeIfAllSigned_def Let_def sendDocumentSignedNotification_def preSave_fields
           split: if_splits sum.splits option.splits prod.splits
           dest!: Document_save_cases sendMail_frame intro!: docsStepI)


lemma finishSubmission_effect:
  assumes run: "finishSubmission env reply entry m w = (r, w')"
  shows "tokens w' = tokens w \<and> signatureDocs w' = signatureDocs w \<and> nextRef w' = nextRef w
         \<and> (documents w' = documents w
             \<or> docsStep (documents w) (documents w') (doc_id m) (doc_status m)
             \<or> docsStep (documents w) (documents w') (doc_id m) signed)"
proof -
  obtain rv w3 where rv: "Document_save env False m w = (rv, w3)"
    by (cases "Document_save env False m w")
  from Document_save_cases[OF rv] show ?thesis
  proof
    assume "\<exists>e. rv = Inl e \<and> w3 = w"
    with run rv show ?thesis by (auto simp: finishSubmission_def)
  next
    let ?d2 = "preSave env False m"
    assume sv: "rv = Inr ?d2 \<and> Document_findById w (doc_id m) \<noteq> None
                 \<and> w3 = w\<lparr>documents := replaceById ?d2 (documents w)\<rparr>"
    have s3: "docsStep (documents w) (documents w3) (doc_id m) (doc_status m)"
      using sv by (auto intro!: docsStepI simp: preSave_fields)
    obtain rc w4 where rc: "completeIfAllSigned env ?d2 w3 = (rc, w4)"
      by (cases "completeIfAllSigned env ?d2 w3")
    note c = completeIfAllSigned_docs[OF rc]
    have fin: "documents w' = documents w4 \<and> signatureDocs w' = signatureDocs w4
               \<and> tokens w' = tokens w4 \<and> nextRef w' = nextRef w4"
      using run rv sv rc by (cases rc) (auto simp: finishSubmission_def AuditLog_log_frame)
    have "docsStep (documents w) (documents w') (doc_id m) (doc_status m)
          \<or> docsStep (documents w) (documents w') (doc_id m) signed"
      using c s3 fin by (auto simp: preSave_fields dest: docsStep_trans)
    with fin c sv show ?thesis by simp
  qed
qed



section \<open>The signing controllers, case by case\<close>

text \<open>
  A run of either controller stops with an error before a Signature is stored, or it stores
  the Signature and goes on as \<open>finishSubmission\<close> does.
\<close>

lemma addSignature_cases:
  assumes run: "addSignature env req w = (r, w')"
  shows "(isl r \<and> r \<noteq> Inl (AppError ''Error generating signed PDF'' 500)
           \<and> documents w' = documents w \<and> signatureDocs w' = signatureDocs w
           \<and> tokens w' = tokens w \<and> nextRef w' = nextRef w)
         \<or> (\<exists>document signer w1 signature w2 k l i.
               Document_findById w (body_documentId req) = Some document \<and> doc_status document = sent
               \<and> find (\<lambda>s. signer_email s = body_signerEmail req) (doc_signers document) = Some signer
               \<and> \<not> signer_signed signer
               \<and> documents w1 = documents w \<and> tokens w1 = tokens w
               \<and> signatureDocs w1 = signatureDocs w \<and> nextRef w1 = nextRef w
               \<and> Signature_create env i w1 = (Inr signature, w2)
               \<and> finishSubmission env k l
                    (markSigned env (body_signerEmail req) (sig_id signature) document) w2 = (r, w'))"
    (is "?early \<or> ?late")
proof (cases "Document_findById w (body_documentId req)")
  case None
  with run show ?thesis by (auto simp: addSignature_def)
next
  case (Some document)
  note doc = this
  show ?thesis
  proof (cases "doc_status document = sent")
    case False
    with run doc show ?thesis by (auto simp: addSignature_def)
  next
    case st: True
    show ?thesis
    proof (cases "find (\<lambda>s. signer_email s = body_signerEmail req) (doc_signers document)")
      case None
      with run doc st show ?thesis by (auto simp: addSignature_def)
    next
      case (Some signer)
      note sg = this
      show ?thesis
      proof (cases "signer_signed signer \<or> positionMissing (body_position req)")
        case True
        with run doc st sg show ?thesis by (auto simp: addSignature_def split: if_splits)
      next
        case False
        then have chk: "\<not> signer_signed signer" "\<not> positionMissing (body_position req)" by auto
        obtain rd w1 where rd: "readSignatureData env (req_file req) (body_signatureData req) w = (rd, w1)"
          by (cases "readSignatureData env (req_file req) (body_signatureData req) w")
        note f1 = readSignatureData_frame[OF rd]
        show ?thesis
        proof (cases rd)
          case (Inl e)
          with run doc st sg chk rd f1 readSignatureData_Inl[of env "req_file req" "body_signatureData req" w e w1]
          show ?thesis by (auto simp: addSignature_def)
        next
          case (Inr signatureData)
          note rdv = this
          let ?i = "\<lparr>in_documentId = doc_id document, in_signerEmail = body_signerEmail req,
                     in_signerName = body_signerName req, in_signatureData = Some signatureData,
                     in_signatureType = body_signatureType req, in_position = body_position req,
                     in_ipAddress = req_ip req, in_userAgent = req_userAgent req\<rparr>"
          obtain rs w2 where rs: "Signature_create env ?i w1 = (rs, w2)"
            by (cases "Signature_create env ?i w1")
          show ?thesis
          proof (cases rs)
            case (Inl e)
            with run doc st sg chk rd rdv rs f1 Signature_create_Inl[of env ?i w1 e w2]
            show ?thesis by (auto simp: addSignature_def)
          next
            case (Inr signature)
            let ?k = "\<lambda>document3 (allSigned::bool).
                        Response 201 ''Signature added successfully'' (Some document3) (Some signature)"
            let ?l = "\<lambda>document3 allSigned.
                         auditEntry env (map_option user_id (req_user req))
                           (Some (doc_id document3)) ''signature_added''
                           [(''signerEmail'', MStr (body_signerEmail req)),
                            (''signerName'', MStr (body_signerName req)),
                            (''allSigned'', MBool allSigned)]
                           (req_ip req) (req_userAgent req)"
            have "addSignature env req w =
                    finishSubmission env ?k ?l
                      (markSigned env (body_signerEmail req) (sig_id signature) document) w2"
              using doc st sg chk rd rdv rs Inr by (simp add: addSignature_def finishSubmission_def)
            with run have "finishSubmission env ?k ?l
                      (markSigned env (body_signerEmail req) (sig_id signature) document) w2 = (r, w')"
              by simp
            with doc st sg chk f1 rs Inr have ?late by blast
            then show ?thesis ..
          qed
        qed
      qed
    qed
  qed
qed

lemma signWithToken_cases:
  assumes run: "signWithToken env req w = (r, w')"
  shows "(isl r \<and> r \<noteq> Inl (AppError ''Error generating signed PDF'' 500)
           \<and> \<not> tokenSubmissionAccepted env req w
           \<and> documents w' = documents w \<and> signatureDocs w' = signatureDocs w
           \<and> (tokens w' = tokens w \<or> tokens w' = jsmap_delete (tokens w) (params_token req))
           \<and> nextRef w' = nextRef w)
         \<or> (\<exists>oid email document signer w1 signature w2 k l i.
               fst (verifyToken (env_now env) (tokens w) (params_token req)) = Some (oid, email)
               \<and> Document_findById w (hexString oid) = Some document \<and> doc_status document = sent
               \<and> find (\<lambda>s. signer_email s = email) (doc_signers document) = Some signer
               \<and> \<not> signer_signed signer
               \<and> documents w1 = documents w \<and> tokens w1 = tokens w
               \<and> signatureDocs w1 = signatureDocs w \<and> nextRef w1 = nextRef w
               \<and> Signature_create env i w1 = (Inr signature, w2)
               \<and> finishSubmission env k l (markSigned env email (sig_id signature) document)
                    (w2\<lparr>tokens := invalidateToken (tokens w2) (params_token req)\<rparr>) = (r, w'))"
    (is "?early \<or> ?late")
proof -
  obtain v ts where v: "verifyToken (env_now env) (tokens w) (params_token req) = (v, ts)"
    by (cases "verifyToken (env_now env) (tokens w) (params_token req)")
  show ?thesis
  proof (cases v)
    case None
    with v verifyToken_None[of "env_now env" "tokens w" "params_token req" ts] run
    show ?thesis by (auto simp: signWithToken_def tokenSubmissionAccepted_def)
  next
    case (Some p)
    obtain oid email where p: "p = (oid, email)" by (cases p)
    have ts: "ts = tokens w" using v Some by (auto dest: verifyToken_Some)
    note vv = v[unfolded Some p ts]
    have vf: "fst (verifyToken (env_now env) (tokens w) (params_token req)) = Some (oid, email)"
      using vv by simp
    show ?thesis
    proof (cases "Document_findById w (hexString oid)")
      case None
      with run vv show ?thesis by (auto simp: signWithToken_def tokenSubmissionAccepted_def)
    next
      case (Some document)
      note doc = this
      show ?thesis
      proof (cases "doc_status document = sent")
        case False
        with run vv doc show ?thesis by (auto simp: signWithToken_def tokenSubmissionAccepted_def)
      next
        case st: True
        show ?thesis
        proof (cases "find (\<lambda>s. signer_email s = email) (doc_signers document)")
          case None
          with run vv doc st show ?thesis by (auto simp: signWithToken_def tokenSubmissionAccepted_def)
        next
          case (Some signer)
          note sg = this
          show ?thesis
          proof (cases "signer_signed signer")
            case True
            with run vv doc st sg show ?thesis by (auto simp: signWithToken_def tokenSubmissionAccepted_def)
          next
            case chk: False
            obtain rd w1 where rd: "readSignatureData env (req_file req) (body_signatureData req) w = (rd, w1)"
              by (cases "readSignatureData env (req_file req) (body_signatureData req) w")
            note f1 = readSignatureData_frame[OF rd]
            show ?thesis
            proof (cases rd)
              case (Inl e)
              with run vv doc st sg chk rd f1
                readSignatureData_Inl[of env "req_file req" "body_signatureData req" w e w1]
              show ?thesis by (auto simp: signWithToken_def tokenSubmissionAccepted_def)
            next
              case (Inr signatureImageData)
              note rdv = this
              let ?i = "\<lparr>in_documentId = doc_id document, in_signerEmail = email,
                         in_signerName = orElse (body_name req) (signer_name signer),
                         in_signatureData = Some signatureImageData,
                         in_signatureType = orElse (body_signatureType req) (Some ''draw''),
                         in_position = body_position req,
                         in_ipAddress = req_ip req, in_userAgent = req_userAgent req\<rparr>"
              obtain rs w2 where rs: "Signature_create env ?i w1 = (rs, w2)"
                by (cases "Signature_create env ?i w1")
              show ?thesis
              proof (cases rs)
                case (Inl e)
                with run vv doc st sg chk rd rdv rs f1 Signature_create_Inl[of env ?i w1 e w2]
                show ?thesis by (auto simp: signWithToken_def tokenSubmissionAccepted_def)
              next
                case (Inr signature)
                let ?k = "\<lambda>document3 (allSigned::bool).
                        Response 201 ''Document signed successfully'' (Some document3) (Some signature)"
                let ?l = "\<lambda>document3 allSigned.
                         auditEntry env None (Some (doc_id document3)) ''signature_added''
                           [(''signerEmail'', MStr email),
                            (''signerName'', MStr (orElse (body_name req) (signer_name signer))),
                            (''allSigned'', MBool allSigned),
                            (''viaToken'', MBool True)]
                           (req_ip req) (req_userAgent req)"
                have "signWithToken env req w =
                        finishSubmission env ?k ?l (markSigned env email (sig_id signature) document)
                          (w2\<lparr>tokens := invalidateToken (tokens w2) (params_token req)\<rparr>)"
                  using vv doc st sg chk rd rdv rs Inr
                  by (simp add: signWithToken_def finishSubmission_def)
                with run have "finishSubmission env ?k ?l (markSigned env email (sig_id signature) document)
                          (w2\<lparr>tokens := invalidateToken (tokens w2) (params_token req)\<rparr>) = (r, w')"
                  by simp
                with vf doc st sg chk f1 rs Inr have ?late by blast
                then show ?thesis ..
              qed
            qed
          qed
        qed
      qed
    qed
  qed
qed

lemma addSignature_run:
  assumes run: "addSignature env req w = (r, w')"
  shows "(isl r \<and> documents w' = documents w \<and> signatureDocs w' = signatureDocs w)
         \<or> (\<exists>d0. Document_findById w (body_documentId req) = Some d0 \<and> doc_status d0 = sent
               \<and> created w w'
               \<and> (documents w' = documents w
                   \<or> docsStep (documents w) (documents w') (body_documentId req) sent
                   \<or> docsStep (documents w) (documents w') (body_documentId req) signed))"
    and "tokens w' = tokens w" and "nextRef w' = nextRef w"
proof -
  from addSignature_cases[OF run]
  have "((isl r \<and> documents w' = documents w \<and> signatureDocs w' = signatureDocs w)
         \<or> (\<exists>d0. Document_findById w (body_documentId req) = Some d0 \<and> doc_status d0 = sent
               \<and> created w w'
               \<and> (documents w' = documents w
                   \<or> docsStep (documents w) (documents w') (body_documentId req) sent
                   \<or> docsStep (documents w) (documents w') (body_documentId req) signed)))
        \<and> tokens w' = tokens w \<and> nextRef w' = nextRef w"
  proof (elim disjE exE conjE)
    fix document signer w1 signature w2 k l i
    assume doc: "Document_findById w (body_documentId req) = Some document"
      and st: "doc_status document = sent"
      and f: "documents w1 = documents w" "tokens w1 = tokens w" "signatureDocs w1 = signatureDocs w"
             "nextRef w1 = nextRef w"
      and rs: "Signature_create env i w1 = (Inr signature, w2)"
      and fs: "finishSubmission env k l
                 (markSigned env (body_signerEmail req) (sig_id signature) document) w2 = (r, w')"
    note f2 = Signature_create_frame[OF rs]
    note e = finishSubmission_effect[OF fs]
    have cr: "created w w'" using rs f e by (auto intro: createdI)
    have did: "doc_id document = body_documentId req" using doc by (rule findById_id)
    show ?thesis using e f f2 cr doc st did by (simp add: markSigned_fields)
  qed auto
  then show "(isl r \<and> documents w' = documents w \<and> signatureDocs w' = signatureDocs w)
         \<or> (\<exists>d0. Document_findById w (body_documentId req) = Some d0 \<and> doc_status d0 = sent
               \<and> created w w'
               \<and> (documents w' = documents w
                   \<or> docsStep (documents w) (documents w') (body_documentId req) sent
                   \<or> docsStep (documents w) (documents w') (body_documentId req) signed))"
    and "tokens w' = tokens w" and "nextRef w' = nextRef w"
    by auto
qed

lemma signWithToken_run:
  assumes run: "signWithToken env req w = (r, w')"
  shows "(isl r \<and> documents w' = documents w \<and> signatureDocs w' = signatureDocs w
           \<and> (tokens w' = tokens w \<or> tokens w' = jsmap_delete (tokens w) (params_token req)))
         \<or> (\<exists>oid email d0. fst (verifyToken (env_now env) (tokens w) (params_token req)) = Some (oid, email)
               \<and> Document_findById w (hexString oid) = Some d0 \<and> doc_status d0 = sent
               \<and> created w w'
               \<and> tokens w' = invalidateToken (tokens w) (params_token req)
               \<and> (documents w' = documents w
                   \<or> docsStep (documents w) (documents w') (hexString oid) sent
                   \<or> docsStep (documents w) (documents w') (hexString oid) signed))"
    and "nextRef w' = nextRef w"
proof -
  from signWithToken_cases[OF run]
  have "((isl r \<and> documents w' = documents w \<and> signatureDocs w' = signatureDocs w
           \<and> (tokens w' = tokens w \<or> tokens w' = jsmap_delete (tokens w) (params_token req)))
         \<or> (\<exists>oid email d0. fst (verifyToken (env_now env) (tokens w) (params_token req)) = Some (oid, email)
               \<and> Document_findById w (hexString oid) = Some d0 \<and> doc_status d0 = sent
               \<and> created w w'
               \<and> tokens w' = invalidateToken (tokens w) (params_token req)
               \<and> (documents w' = documents w
                   \<or> docsStep (documents w) (documents w') (hexString oid) sent
                   \<or> docsStep (documents w) (documents w') (hexString oid) signed)))
        \<and> nextRef w' = nextRef w"
  proof (elim disjE exE conjE)
    fix oid email document signer w1 signature w2 k l i
    assume vf: "fst (verifyToken (env_now env) (tokens w) (params_token req)) = Some (oid, email)"
      and doc: "Document_findById w (hexString oid) = Some document"
      and st: "doc_status document = sent"
      and f: "documents w1 = documents w" "tokens w1 = tokens w" "signatureDocs w1 = signatureDocs w"
             "nextRef w1 = nextRef w"
      and rs: "Signature_create env i w1 = (Inr signature, w2)"
      and fs: "finishSubmission env k l (markSigned env email (sig_id signature) document)
                 (w2\<lparr>tokens := invalidateToken (tokens w2) (params_token req)\<rparr>) = (r, w')"
    note f2 = Signature_create_frame[OF rs]
    note e = finishSubmission_effect[OF fs]
    have cr: "created w w'" using rs f e by (auto intro: createdI)
    have did: "doc_id document = hexString oid" using doc by (rule findById_id)
    have "\<exists>oid email d0. fst (verifyToken (env_now env) (tokens w) (params_token req)) = Some (oid, email)
               \<and> Document_findById w (hexString oid) = Some d0 \<and> doc_status d0 = sent
               \<and> created w w'
               \<and> tokens w' = invalidateToken (tokens w) (params_token req)
               \<and> (documents w' = documents w
                   \<or> docsStep (documents w) (documents w') (hexString oid) sent
                   \<or> docsStep (documents w) (documents w') (hexString oid) signed)"
      apply (rule exI[of _ oid], rule exI[of _ email], rule exI[of _ document])
      using e f f2 cr doc st did vf by (simp add: markSigned_fields)
    then show ?thesis using e f f2 by simp
  qed auto
  then show "(isl r \<and> documents w' = documents w \<and> signatureDocs w' = signatureDocs w
           \<and> (tokens w' = tokens w \<or> tokens w' = jsmap_delete (tokens w) (params_token req)))
         \<or> (\<exists>oid email d0. fst (verifyToken (env_now env) (tokens w) (params_token req)) = Some (oid, email)
               \<and> Document_findById w (hexString oid) = Some d0 \<and> doc_status d0 = sent
               \<and> created w w'
               \<and> tokens w' = invalidateToken (tokens w) (params_token req)
               \<and> (documents w' = documents w
                   \<or> docsStep (documents w) (documents w') (hexString oid) sent
                   \<or> docsStep (documents w) (documents w') (hexString oid) signed))"
    and "nextRef w' = nextRef w"
    by auto
qed


lemma perform_signWithToken:
  "req_file req \<noteq> None \<Longrightarrow> perform env OpSignWithToken req w = signWithToken env req w"
  by (auto simp: uploadSignature_def split: option.splits)



lemma accepted_run:
  assumes acc: "tokenSubmissionAccepted env req w"
  shows "tokens (snd (signWithToken env req w)) = invalidateToken (tokens w) (params_token req)"
proof -
  obtain r w' where run: "signWithToken env req w = (r, w')" by (cases "signWithToken env req w")
  from signWithToken_cases[OF run] acc have "tokens w' = invalidateToken (tokens w) (params_token req)"
  proof (elim disjE exE conjE)
    fix oid email document signer w1 signature w2 k l j
    assume f: "tokens w1 = tokens w"
      and rs: "Signature_create env j w1 = (Inr signature, w2)"
      and fs: "finishSubmission env k l (markSigned env email (sig_id signature) document)
                 (w2\<lparr>tokens := invalidateToken (tokens w2) (params_token req)\<rparr>) = (r, w')"
    from finishSubmission_effect[OF fs] Signature_create_frame[OF rs] f show ?thesis by simp
  qed simp_all
  with run show ?thesis by simp
qed

section \<open>The document controller, case by case\<close>

lemma updateDocument_docs:
  assumes "updateDocument env usr req document w = (r, w')"
  shows "(documents w' = documents w
          \<or> (doc_status document = draft \<and> docsStep (documents w) (documents w') (doc_id document) draft))
         \<and> tokens w' = tokens w \<and> signatureDocs w' = signatureDocs w \<and> nextRef w' = nextRef w"
  using assms
  by (auto simp: updateDocument_def Let_def AuditLog_log_frame preSave_fields
           split: if_splits signersField.splits prod.splits sum.splits
           dest!: Document_save_cases intro!: docsStepI)

lemma sendDocument_docs:
  assumes "sendDocument env usr req document w = (r, w')"
  shows "(documents w' = documents w
          \<or> (doc_status document = draft \<and> docsStep (documents w) (documents w') (doc_id document) sent))
         \<and> tokens w' = tokens w \<and> signatureDocs w' = signatureDocs w \<and> nextRef w' = nextRef w"
proof (cases "doc_status document = draft \<and> doc_signers document \<noteq> []")
  case False
  with assms show ?thesis by (auto simp: sendDocument_def split: if_splits)
next
  case True
  obtain rv w1 where rv: "Document_save env True (document\<lparr>doc_status := sent\<rparr>) w = (rv, w1)"
    by (cases "Document_save env True (document\<lparr>doc_status := sent\<rparr>) w")
  from Document_save_cases[OF rv] show ?thesis
  proof
    assume "\<exists>e. rv = Inl e \<and> w1 = w"
    with assms True rv show ?thesis by (auto simp: sendDocument_def)
  next
    let ?d1 = "preSave env True (document\<lparr>doc_status := sent\<rparr>)"
    assume sv: "rv = Inr ?d1 \<and> Document_findById w (doc_id (document\<lparr>doc_status := sent\<rparr>)) \<noteq> None
        \<and> w1 = w\<lparr>documents := replaceById ?d1 (documents w)\<rparr>"
    obtain rm w2 where rm: "sendSigningRequests env ?d1 (ObjectId (doc_id ?d1) (nextRef w1)) (doc_signers ?d1) w1 = (rm, w2)"
      by (cases "sendSigningRequests env ?d1 (ObjectId (doc_id ?d1) (nextRef w1)) (doc_signers ?d1) w1")
    note f = sendSigningRequests_frame[OF rm]
    have s1: "docsStep (documents w) (documents w1) (doc_id document) sent"
      using sv by (auto intro!: docsStepI simp: preSave_fields)
    have "documents w' = documents w2 \<and> tokens w' = tokens w2 \<and> signatureDocs w' = signatureDocs w2
          \<and> nextRef w' = nextRef w2"
      using assms True rv sv rm by (cases rm) (auto simp: sendDocument_def AuditLog_log_frame)
    with f s1 sv True show ?thesis by simp
  qed
qed

lemma rejectDocument_docs:
  assumes "rejectDocument env usr req document w = (r, w')"
  shows "(documents w' = documents w
          \<or> (doc_status document = sent \<and> docsStep (documents w) (documents w') (doc_id document) rejected))
         \<and> tokens w' = tokens w \<and> signatureDocs w' = signatureDocs w \<and> nextRef w' = nextRef w"
  using assms
  by (auto simp: rejectDocument_def Let_def AuditLog_log_frame preSave_fields sendRejectionNotification_def
           split: if_splits prod.splits sum.splits
           dest!: Document_save_cases sendMail_frame intro!: docsStepI)

lemma deleteDocument_docs:
  assumes "deleteDocument env usr req document w = (r, w')"
  shows "(documents w' = documents w
          \<or> (doc_status document = draft
              \<and> documents w' = filter (\<lambda>d. doc_id d \<noteq> doc_id document) (documents w)))
         \<and> tokens w' = tokens w \<and> signatureDocs w' = signatureDocs w \<and> nextRef w' = nextRef w"
  using assms
  by (auto simp: deleteDocument_def Let_def AuditLog_log_frame Document_findByIdAndDelete_def
           split: if_splits)

lemma uploadDocument_step:
  assumes run: "uploadDocument env usr req w = (r, w')"
  shows "lifecycleStep OpUpload (Document_findById w i) (Document_findById w' i)"
    and "signatureDocs w' = signatureDocs w"
proof -
  let ?same = "documents w' = documents w \<and> signatureDocs w' = signatureDocs w"
  let ?new = "Document_findById w (env_newObjectId env) = None \<and> signatureDocs w' = signatureDocs w
     \<and> (\<exists>d1 d3. doc_id d1 = env_newObjectId env \<and> doc_status d1 = draft
            \<and> doc_id d3 = env_newObjectId env \<and> doc_status d3 = draft
            \<and> (documents w' = documents w @ [d1] \<or> documents w' = replaceById d3 (documents w @ [d1])))"
  have "?same \<or> ?new"
  proof (cases "req_file req")
    case None
    with run show ?thesis by (simp add: uploadDocument_def)
  next
    case (Some filePath)
    note fp = this
    show ?thesis
    proof (cases "body_signers req = Malformed")
      case True
      with run fp show ?thesis by (simp add: uploadDocument_def)
    next
      case nm: False
      let ?ss = "case body_signers req of Parsed ss \<Rightarrow> ss | _ \<Rightarrow> []"
      show ?thesis
      proof (cases "getPDFMetadata env (files w) filePath")
        case (Inl e)
        with run fp nm show ?thesis by (auto simp: uploadDocument_def split: signersField.splits)
      next
        case (Inr pageCount)
        note pc = this
        show ?thesis
        proof (cases "jsmap_get (files w) filePath")
          case None
          with run fp nm pc show ?thesis by (auto simp: uploadDocument_def split: signersField.splits)
        next
          case (Some bytes)
          note bts = this
          let ?nd = "newDocument env usr req filePath ?ss pageCount (env_sha256 env bytes)"
          obtain rc w1 where rc: "Document_create env ?nd w = (rc, w1)"
            by (cases "Document_create env ?nd w")
          show ?thesis
          proof (cases rc)
            case (Inl e)
            with rc have "w1 = w" by (auto simp: Document_create_def Let_def split: if_splits)
            with Inl run fp nm pc bts rc show ?thesis
              by (auto simp: uploadDocument_def Let_def split: signersField.splits)
          next
            case (Inr document)
            with rc have cr: "Document_findById w (env_newObjectId env) = None"
               "document = preSave env True ?nd" "w1 = w\<lparr>documents := documents w @ [document]\<rparr>"
              by (auto simp: Document_create_def Let_def newDocument_def split: if_splits)
            have d1: "doc_id document = env_newObjectId env" "doc_status document = draft"
              using cr by (simp_all add: preSave_fields newDocument_def)
            let ?oid = "ObjectId (doc_id document) (nextRef w1)"
            let ?w2 = "w1\<lparr>nextRef := Suc (nextRef w1)\<rparr>"
            let ?mt = "mintTokens env ?oid 0 (map signer_email (doc_signers document)) document (tokens ?w2)"
            let ?w3 = "?w2\<lparr>tokens := snd ?mt\<rparr>"
            obtain rv w4 where rv: "Document_save env False (fst ?mt) ?w3 = (rv, w4)"
              by (cases "Document_save env False (fst ?mt) ?w3")
            have pre: "uploadDocument env usr req w =
                 (case Document_save env False (fst ?mt) ?w3 of
                    (Inl e, w4) \<Rightarrow> (Inl e, w4)
                  | (Inr document3, w4) \<Rightarrow>
                       (Inr (Response 201 ''Document uploaded successfully'' (Some document3) None),
                        AuditLog_log
                          (auditEntry env (Some (user_id usr)) (Some (doc_id document3))
                             ''document_created''
                             [(''title'', MStr (doc_title document3)),
                              (''fileSize'', MNat (req_file_size req))]
                             (req_ip req) (req_userAgent req)) w4))"
              using fp nm pc bts rc Inr
              by (auto simp: uploadDocument_def Let_def split: signersField.splits prod.splits)
            have m: "doc_id (fst ?mt) = env_newObjectId env" "doc_status (fst ?mt) = draft"
              using mintTokens_fields[of env ?oid 0 "map signer_email (doc_signers document)" document "tokens ?w2"] d1
              by simp_all
            from Document_save_cases[OF rv] show ?thesis
            proof
              assume "\<exists>e. rv = Inl e \<and> w4 = ?w3"
              with run pre rv have "w' = ?w3" by auto
              with cr d1 show ?thesis by auto
            next
              let ?d3 = "preSave env False (fst ?mt)"
              assume sv: "rv = Inr ?d3 \<and> Document_findById ?w3 (doc_id (fst ?mt)) \<noteq> None
                  \<and> w4 = ?w3\<lparr>documents := replaceById ?d3 (documents ?w3)\<rparr>"
              with run pre rv have "documents w' = replaceById ?d3 (documents w @ [document])"
                  "signatureDocs w' = signatureDocs w"
                using cr by (auto simp: AuditLog_log_frame)
              moreover have "doc_id ?d3 = env_newObjectId env" "doc_status ?d3 = draft"
                using m by (simp_all add: preSave_fields)
              ultimately show ?thesis using cr d1 by blast
            qed
          qed
        qed
      qed
    qed
  qed
  then show "signatureDocs w' = signatureDocs w" by auto
  from \<open>?same \<or> ?new\<close> show "lifecycleStep OpUpload (Document_findById w i) (Document_findById w' i)"
  proof
    assume ?same
    then show ?thesis by (simp add: step_same)
  next
    assume ?new
    then obtain d1 d3 where n: "find (\<lambda>d. doc_id d = env_newObjectId env) (documents w) = None"
        "doc_id d1 = env_newObjectId env" "doc_status d1 = draft"
        "doc_id d3 = env_newObjectId env" "doc_status d3 = draft"
        "documents w' = documents w @ [d1] \<or> documents w' = replaceById d3 (documents w @ [d1])"
      unfolding Document_findById_def by blast
    from n(6) show ?thesis
    proof
      assume "documents w' = documents w @ [d1]"
      then show ?thesis
        using n(1-5) find_new(1)[OF n(1) n(2) n(4), of i]
        by (cases "i = env_newObjectId env")
           (auto simp: lifecycleStep_def Document_findById_def split: option.splits)
    next
      assume "documents w' = replaceById d3 (documents w @ [d1])"
      then show ?thesis
        using n(1-5) find_new(2)[OF n(1) n(2) n(4), of i]
        by (cases "i = env_newObjectId env")
           (auto simp: lifecycleStep_def Document_findById_def split: option.splits)
    qed
  qed
qed

lemma uploadDocument_success:
  assumes run: "uploadDocument env usr req w = (Inr r, w')"
  shows "\<exists>d. tokens w' = snd (mintTokens env (ObjectId (env_newObjectId env) (nextRef w)) 0
                 (map signer_email (case body_signers req of Parsed ss \<Rightarrow> ss | _ \<Rightarrow> [])) d (tokens w))
          \<and> nextRef w' = Suc (nextRef w)
          \<and> (\<exists>d3. Document_findById w' (env_newObjectId env) = Some d3 \<and> doc_status d3 = draft)"
proof -
  obtain filePath where fp: "req_file req = Some filePath"
    using run by (cases "req_file req") (auto simp: uploadDocument_def)
  have nm: "body_signers req \<noteq> Malformed"
    using run fp by (auto simp: uploadDocument_def)
  let ?ss = "case body_signers req of Parsed ss \<Rightarrow> ss | _ \<Rightarrow> []"
  obtain pageCount where pc: "getPDFMetadata env (files w) filePath = Inr pageCount"
    using run fp nm
    by (cases "getPDFMetadata env (files w) filePath")
       (auto simp: uploadDocument_def split: signersField.splits)
  obtain bytes where bts: "jsmap_get (files w) filePath = Some bytes"
    using run fp nm pc
    by (cases "jsmap_get (files w) filePath")
       (auto simp: uploadDocument_def split: signersField.splits)
  let ?nd = "newDocument env usr req filePath ?ss pageCount (env_sha256 env bytes)"
  obtain rc w1 where rc: "Document_create env ?nd w = (rc, w1)"
    by (cases "Document_create env ?nd w")
  obtain document where rcv: "rc = Inr document"
    using run fp nm pc bts rc
    by (cases rc) (auto simp: uploadDocument_def Let_def split: signersField.splits)
  from rc rcv have cr: "Document_findById w (env_newObjectId env) = None"
     "document = preSave env True ?nd" "w1 = w\<lparr>documents := documents w @ [document]\<rparr>"
    by (auto simp: Document_create_def Let_def newDocument_def split: if_splits)
  have d1: "doc_id document = env_newObjectId env" "doc_status document = draft"
           "doc_signers document = ?ss"
    using cr by (simp_all add: preSave_fields newDocument_def)
  let ?oid = "ObjectId (doc_id document) (nextRef w1)"
  let ?w2 = "w1\<lparr>nextRef := Suc (nextRef w1)\<rparr>"
  let ?mt = "mintTokens env ?oid 0 (map signer_email (doc_signers document)) document (tokens ?w2)"
  let ?w3 = "?w2\<lparr>tokens := snd ?mt\<rparr>"
  obtain rv w4 where rv: "Document_save env False (fst ?mt) ?w3 = (rv, w4)"
    by (cases "Document_save env False (fst ?mt) ?w3")
  have pre: "uploadDocument env usr req w =
       (case Document_save env False (fst ?mt) ?w3 of
          (Inl e, w4) \<Rightarrow> (Inl e, w4)
        | (Inr document3, w4) \<Rightarrow>
             (Inr (Response 201 ''Document uploaded successfully'' (Some document3) None),
              AuditLog_log
                (auditEntry env (Some (user_id usr)) (Some (doc_id document3))
                   ''document_created''
                   [(''title'', MStr (doc_title document3)),
                    (''fileSize'', MNat (req_file_size req))]
                   (req_ip req) (req_userAgent req)) w4))"
    using fp nm pc bts rc rcv
    by (auto simp: uploadDocument_def Let_def split: signersField.splits prod.splits)
  have m: "doc_id (fst ?mt) = env_newObjectId env" "doc_status (fst ?mt) = draft"
    using mintTokens_fields[of env ?oid 0 "map signer_email (doc_signers document)" document "tokens ?w2"] d1
    by simp_all
  let ?d3 = "preSave env False (fst ?mt)"
  from Document_save_cases[OF rv] run pre rv
  have sv: "w4 = ?w3\<lparr>documents := replaceById ?d3 (documents ?w3)\<rparr>"
    and w': "w' = AuditLog_log
                (auditEntry env (Some (user_id usr)) (Some (doc_id ?d3))
                   ''document_created''
                   [(''title'', MStr (doc_title ?d3)),
                    (''fileSize'', MNat (req_file_size req))]
                   (req_ip req) (req_userAgent req)) w4"
    by auto
  have t: "tokens w' = snd (mintTokens env (ObjectId (env_newObjectId env) (nextRef w)) 0
                 (map signer_email ?ss) document (tokens w))"
    using w' sv cr d1 by (simp add: AuditLog_log_frame)
  have n: "nextRef w' = Suc (nextRef w)" using w' sv cr by (simp add: AuditLog_log_frame)
  have "documents w' = replaceById ?d3 (documents w @ [document])"
    using w' sv cr by (simp add: AuditLog_log_frame)
  then have "Document_findById w' (env_newObjectId env) = Some ?d3"
    using find_new(2)[of "env_newObjectId env" "documents w" document ?d3 "env_newObjectId env"] cr(1) d1 m
    by (simp add: Document_findById_def preSave_fields)
  moreover have "doc_status ?d3 = draft" using m by (simp add: preSave_fields)
  ultimately show ?thesis using t n by blast
qed

lemma mintTokens_preserve:
  "jsmap_get ts t = Some td \<Longrightarrow> minted env oid td \<Longrightarrow>
   \<exists>td'. jsmap_get (snd (mintTokens env oid k es d ts)) t = Some td' \<and> minted env oid td'"
proof (induction es arbitrary: k d ts td)
  case Nil
  then show ?case by simp
next
  case (Cons e es)
  let ?tk = "env_randomBytes env k"
  let ?new = "\<lparr>tok_documentId = oid, tok_email = e,
               tok_expiresAt = env_now env + sevenDays * 1000, tok_used = False\<rparr>"
  let ?ts' = "jsmap_set ts ?tk ?new"
  have "\<exists>td1. jsmap_get ?ts' t = Some td1 \<and> minted env oid td1"
  proof (cases "t = ?tk")
    case True
    then show ?thesis by (simp add: jsmap_get_set_same minted_def)
  next
    case False
    with Cons.prems show ?thesis by (simp add: jsmap_get_set_other)
  qed
  then obtain td1 where "jsmap_get ?ts' t = Some td1" "minted env oid td1" by blast
  from Cons.IH[OF this] show ?case
    by (simp add: generateSigningToken_def storeToken_def Let_def)
qed

lemma mintTokens_keys:
  "k' < length es \<Longrightarrow>
   \<exists>td. jsmap_get (snd (mintTokens env oid k es d ts)) (env_randomBytes env (k + k')) = Some td
        \<and> minted env oid td"
proof (induction es arbitrary: k k' d ts)
  case Nil
  then show ?case by simp
next
  case (Cons e es)
  let ?tk = "env_randomBytes env k"
  let ?new = "\<lparr>tok_documentId = oid, tok_email = e,
               tok_expiresAt = env_now env + sevenDays * 1000, tok_used = False\<rparr>"
  let ?ts' = "jsmap_set ts ?tk ?new"
  show ?case
  proof (cases k')
    case 0
    have "jsmap_get ?ts' ?tk = Some ?new" "minted env oid ?new"
      by (simp_all add: jsmap_get_set_same minted_def)
    from mintTokens_preserve[OF this] 0 show ?thesis
      by (simp add: generateSigningToken_def storeToken_def Let_def)
  next
    case (Suc n)
    with Cons.prems have "n < length es" by simp
    from Cons.IH[OF this, of "Suc k"] Suc show ?thesis
      by (simp add: generateSigningToken_def storeToken_def Let_def)
  qed
qed

lemma ownedDocument_Some:
  "ownedDocument req w = Some d \<Longrightarrow>
     (\<exists>usr. protect req = Inr usr \<and> checkDocumentOwnership usr (params_id req) w = Inr d)
     \<and> Document_findById w (doc_id d) = Some d"
  by (auto simp: ownedDocument_def checkDocumentOwnership_def findById_self
           split: sum.splits option.splits if_splits)

lemma withOwnedDocument_cases:
  assumes "withOwnedDocument controller req w = (r, w')"
  shows "(ownedDocument req w = None \<and> w' = w \<and> isl r)
         \<or> (\<exists>usr d. ownedDocument req w = Some d \<and> Document_findById w (doc_id d) = Some d
               \<and> controller usr req d w = (r, w'))"
  using assms
  by (auto simp: withOwnedDocument_def ownedDocument_def checkDocumentOwnership_def findById_self
           split: sum.splits option.splits if_splits)

lemma perform_step:
  assumes run: "perform env op req w = (r, w')"
  shows "lifecycleStep op (Document_findById w i) (Document_findById w' i)"
proof (cases op)
  case OpUpload
  with run show ?thesis
    by (auto simp: step_same uploadDocument_step(1) split: sum.splits)
next
  case OpUpdate
  with run have "withOwnedDocument (updateDocument env) req w = (r, w')" by simp
  from withOwnedDocument_cases[OF this] show ?thesis
  proof (elim disjE exE conjE)
    fix usr d
    assume d: "Document_findById w (doc_id d) = Some d" and c: "updateDocument env usr req d w = (r, w')"
    from updateDocument_docs[OF c] d show ?thesis
      by (auto simp: step_same intro: step_docsStep)
  qed (simp add: step_same)
next
  case OpSend
  with run have "withOwnedDocument (sendDocument env) req w = (r, w')" by simp
  from withOwnedDocument_cases[OF this] show ?thesis
  proof (elim disjE exE conjE)
    fix usr d
    assume d: "Document_findById w (doc_id d) = Some d" and c: "sendDocument env usr req d w = (r, w')"
    from sendDocument_docs[OF c] d OpSend show ?thesis
      by (auto simp: step_same transition_def intro: step_docsStep)
  qed (simp add: step_same)
next
  case OpReject
  with run have "withOwnedDocument (rejectDocument env) req w = (r, w')" by simp
  from withOwnedDocument_cases[OF this] show ?thesis
  proof (elim disjE exE conjE)
    fix usr d
    assume d: "Document_findById w (doc_id d) = Some d" and c: "rejectDocument env usr req d w = (r, w')"
    from rejectDocument_docs[OF c] d OpReject show ?thesis
      by (auto simp: step_same transition_def intro: step_docsStep)
  qed (simp add: step_same)
next
  case OpDelete
  with run have "withOwnedDocument (deleteDocument env) req w = (r, w')" by simp
  from withOwnedDocument_cases[OF this] show ?thesis
  proof (elim disjE exE conjE)
    fix usr d
    assume d: "Document_findById w (doc_id d) = Some d" and c: "deleteDocument env usr req d w = (r, w')"
    from deleteDocument_docs[OF c] d OpDelete show ?thesis
      by (auto simp: step_same intro: step_deleted)
  qed (simp add: step_same)
next
  case OpAddSignature
  show ?thesis
  proof (cases "protect req")
    case (Inl e)
    with run OpAddSignature show ?thesis by (simp add: step_same)
  next
    case (Inr usr)
    show ?thesis
    proof (cases "uploadSignature req")
      case (Inl e)
      with run OpAddSignature Inr show ?thesis by (simp add: step_same)
    next
      case u: (Inr x)
      with run OpAddSignature Inr have "addSignature env req w = (r, w')" by simp
      from addSignature_run(1)[OF this] OpAddSignature show ?thesis
        by (auto simp: step_same transition_def intro: step_docsStep)
    qed
  qed
next
  case OpSignWithToken
  show ?thesis
  proof (cases "uploadSignature req")
    case (Inl e)
    with run OpSignWithToken show ?thesis by (simp add: step_same)
  next
    case (Inr x)
    with run OpSignWithToken have "signWithToken env req w = (r, w')" by simp
    from signWithToken_run(1)[OF this] OpSignWithToken show ?thesis
      by (auto simp: step_same transition_def intro: step_docsStep)
  qed
qed

lemma perform_violation:
  assumes run: "perform env op req w = (r, w')"
    and t: "targetDocument env op req w = Some d"
    and v: "Some (doc_status d) \<noteq> requiredStatus op"
  shows "(\<exists>m. r = Inl (AppError m 400)) \<and> w' = w"
proof (cases op)
  case OpUpload
  with t show ?thesis by simp
next
  case OpUpdate
  with run t v show ?thesis
    by (auto simp: withOwnedDocument_def updateDocument_def dest!: ownedDocument_Some)
next
  case OpSend
  with run t v show ?thesis
    by (auto simp: withOwnedDocument_def sendDocument_def dest!: ownedDocument_Some)
next
  case OpReject
  with run t v show ?thesis
    by (auto simp: withOwnedDocument_def rejectDocument_def dest!: ownedDocument_Some)
next
  case OpDelete
  with run t v show ?thesis
    by (auto simp: withOwnedDocument_def deleteDocument_def dest!: ownedDocument_Some)
next
  case OpAddSignature
  with run t v show ?thesis
    by (auto simp: protect_def uploadSignature_def addSignature_def split: if_splits option.splits)
next
  case OpSignWithToken
  with run t v show ?thesis
    by (auto simp: uploadSignature_def signWithToken_def Let_def
             split: if_splits option.splits prod.splits dest!: verifyToken_Some)
qed

lemma perform_tokens:
  assumes run: "perform env op req w = (r, w')" and op: "op \<noteq> OpUpload"
  shows "tokens w' = tokens w \<or> tokens w' = jsmap_delete (tokens w) (params_token req)
         \<or> tokens w' = invalidateToken (tokens w) (params_token req)"
proof (cases op)
  case OpUpload
  with op show ?thesis by simp
next
  case OpUpdate
  with run have "withOwnedDocument (updateDocument env) req w = (r, w')" by simp
  from withOwnedDocument_cases[OF this] show ?thesis by (auto dest: updateDocument_docs)
next
  case OpSend
  with run have "withOwnedDocument (sendDocument env) req w = (r, w')" by simp
  from withOwnedDocument_cases[OF this] show ?thesis by (auto dest: sendDocument_docs)
next
  case OpReject
  with run have "withOwnedDocument (rejectDocument env) req w = (r, w')" by simp
  from withOwnedDocument_cases[OF this] show ?thesis by (auto dest: rejectDocument_docs)
next
  case OpDelete
  with run have "withOwnedDocument (deleteDocument env) req w = (r, w')" by simp
  from withOwnedDocument_cases[OF this] show ?thesis by (auto dest: deleteDocument_docs)
next
  case OpAddSignature
  with run show ?thesis
    by (auto split: sum.splits dest: addSignature_run(2))
next
  case OpSignWithToken
  show ?thesis
  proof (cases "uploadSignature req")
    case (Inl e)
    with run OpSignWithToken show ?thesis by simp
  next
    case (Inr x)
    with run OpSignWithToken have "signWithToken env req w = (r, w')" by simp
    from signWithToken_run(1)[OF this] show ?thesis by auto
  qed
qed

lemma perform_token_keys:
  assumes run: "perform env op req w = (r, w')" and op: "op \<noteq> OpUpload"
  shows "set (map fst (tokens w')) \<subseteq> set (map fst (tokens w))"
proof -
  from perform_tokens[OF run op] show ?thesis
  proof (elim disjE)
    assume "tokens w' = jsmap_delete (tokens w) (params_token req)"
    then show ?thesis using keys_delete[of "tokens w" "params_token req"] by simp
  next
    assume "tokens w' = invalidateToken (tokens w) (params_token req)"
    then show ?thesis by (simp only: keys_invalidate)
  qed simp
qed

section \<open>Claim C1: the status lifecycle\<close>

text \<open>
  Claim C1. For every exposed lifecycle operation, run through its route on any state: the
  status of every stored document either stays as it is or moves along
  draft \<rightarrow> sent (by send), sent \<rightarrow> rejected (by reject) or sent \<rightarrow> signed (by a signature
  submission, on either path); a document disappears only by delete and only from draft, and
  appears only by upload, in draft. When the document the operation is invoked on does not
  have the status the operation requires (draft for update, send and delete; sent for reject
  and both signature submissions), the operation answers with an AppError of status code 400
  and the whole state, the document's status included, is unchanged.
\<close>

theorem C1_status_lifecycle:
  assumes "perform env op req w = (r, w')"
  shows "(\<forall>i. lifecycleStep op (Document_findById w i) (Document_findById w' i))
         \<and> (\<forall>d. targetDocument env op req w = Some d \<and> Some (doc_status d) \<noteq> requiredStatus op
                \<longrightarrow> (\<exists>m. r = Inl (AppError m 400)) \<and> w' = w)"
  using perform_step[OF assms] perform_violation[OF assms] by blast

text \<open>
  In the run: rejecting the draft of \<open>world1\<close> is refused with a 400 and changes nothing;
  sending it takes it from draft to sent.
\<close>

theorem C1_witness:
  "(\<exists>m. fst (perform (exEnv 2000 []) OpReject sendReq world1) = Inl (AppError m 400))
   \<and> snd (perform (exEnv 2000 []) OpReject sendReq world1) = world1
   \<and> map_option doc_status (Document_findById world1 docId) = Some draft
   \<and> map_option doc_status (Document_findById world2 docId) = Some sent
   \<and> lifecycleStep OpSend (Document_findById world1 docId) (Document_findById world2 docId)"
proof -
  have t: "map_option doc_status (targetDocument (exEnv 2000 []) OpReject sendReq world1) = Some draft"
    unfolding world1_def by code_simp
  then obtain d where d: "targetDocument (exEnv 2000 []) OpReject sendReq world1 = Some d"
    and s: "doc_status d = draft" by auto
  have v: "Some (doc_status d) \<noteq> requiredStatus OpReject" using s by simp
  have r: "perform (exEnv 2000 []) OpReject sendReq world1
           = (fst (perform (exEnv 2000 []) OpReject sendReq world1),
              snd (perform (exEnv 2000 []) OpReject sendReq world1))" by simp
  have p: "perform (exEnv 2000 []) OpSend sendReq world1
           = (fst (perform (exEnv 2000 []) OpSend sendReq world1), world2)"
    by (simp add: world2_def)
  have a: "map_option doc_status (Document_findById world1 docId) = Some draft"
    unfolding world1_def by code_simp
  have b: "map_option doc_status (Document_findById world2 docId) = Some sent"
    unfolding world2_def world1_def by code_simp
  from C1_status_lifecycle[OF r] d v C1_status_lifecycle[OF p] a b show ?thesis by blast
qed

section \<open>Claim C3: double submission\<close>

text \<open>
  The flag check. A submission that targets a signer whose \<open>signed\<close> flag is already true
  is answered with an AppError of status code 400 and leaves the whole state unchanged, so no
  Signature is created: on the authenticated path, and on the token path when the token
  still verifies (the message is "already signed" when the document is \<open>sent\<close>, "not
  ready for signing" otherwise); when the token no longer verifies the answer is the
  invalid-token error, again with no new Signature.
\<close>

lemma double_submission_refused:
  "(Document_findById w (body_documentId req) = Some d
      \<and> find (\<lambda>s. signer_email s = body_signerEmail req) (doc_signers d) = Some s \<and> signer_signed s
    \<longrightarrow> addSignature env req w =
          (Inl (AppError (if doc_status d = sent then ''You have already signed this document.''
                          else ''Document is not ready for signing.'') 400), w))
   \<and> (fst (verifyToken (env_now env) (tokens w) (params_token req)) = Some (oid, email)
      \<and> Document_findById w (hexString oid) = Some d
      \<and> find (\<lambda>s. signer_email s = email) (doc_signers d) = Some s \<and> signer_signed s
    \<longrightarrow> signWithToken env req w =
          (Inl (AppError (if doc_status d = sent then ''You have already signed this document.''
                          else ''Document is not ready for signing.'') 400), w))
   \<and> (fst (verifyToken (env_now env) (tokens w) (params_token req)) = None
    \<longrightarrow> fst (signWithToken env req w) = Inl (AppError ''Invalid or expired token.'' 400)
        \<and> signatureDocs (snd (signWithToken env req w)) = signatureDocs w)"
proof (intro conjI impI)
  assume "fst (verifyToken (env_now env) (tokens w) (params_token req)) = None"
  then show "fst (signWithToken env req w) = Inl (AppError ''Invalid or expired token.'' 400)"
    and "signatureDocs (snd (signWithToken env req w)) = signatureDocs w"
    by (auto simp: signWithToken_def split: prod.splits option.splits)
next
  assume "Document_findById w (body_documentId req) = Some d
      \<and> find (\<lambda>s. signer_email s = body_signerEmail req) (doc_signers d) = Some s \<and> signer_signed s"
  then show "addSignature env req w =
          (Inl (AppError (if doc_status d = sent then ''You have already signed this document.''
                          else ''Document is not ready for signing.'') 400), w)"
    by (simp add: addSignature_def)
next
  assume a: "fst (verifyToken (env_now env) (tokens w) (params_token req)) = Some (oid, email)
      \<and> Document_findById w (hexString oid) = Some d
      \<and> find (\<lambda>s. signer_email s = email) (doc_signers d) = Some s \<and> signer_signed s"
  obtain ts where "verifyToken (env_now env) (tokens w) (params_token req) = (Some (oid, email), ts)"
    using a by (cases "verifyToken (env_now env) (tokens w) (params_token req)") auto
  moreover from this have "ts = tokens w" by (rule verifyToken_Some)
  ultimately show "signWithToken env req w =
          (Inl (AppError (if doc_status d = sent then ''You have already signed this document.''
                          else ''Document is not ready for signing.'') 400), w)"
    using a by (simp add: signWithToken_def)
qed

text \<open>
  In \<open>world4'\<close> Bob has signed through the authenticated route and his token is still
  unused: both paths refuse him; Ann's token is used and no longer verifies.
\<close>

lemma double_submission_refused_in_the_run:
  "addSignature (exEnv 5000 ''65a1f0c2b3d4e5f6a7b8c9e3'') retryReq world4'
     = (Inl (AppError ''You have already signed this document.'' 400), world4')
   \<and> signWithToken (exEnv 5000 ''65a1f0c2b3d4e5f6a7b8c9e3'')
        (signReq tokenB ''uploads/signed/signature-3.png'') world4'
     = (Inl (AppError ''You have already signed this document.'' 400), world4')
   \<and> fst (signWithToken (exEnv 5000 ''65a1f0c2b3d4e5f6a7b8c9e3'')
            (signReq tokenA ''uploads/signed/signature-3.png'') world4')
     = Inl (AppError ''Invalid or expired token.'' 400)"
proof -
  let ?env = "exEnv 5000 ''65a1f0c2b3d4e5f6a7b8c9e3''"
  have vn: "fst (verifyToken (env_now ?env) (tokens world4')
             (params_token (signReq tokenA ''uploads/signed/signature-3.png''))) = None"
    unfolding world4'_def world3_def world2_def world1_def by code_simp
  have c5: "fst (signWithToken ?env (signReq tokenA ''uploads/signed/signature-3.png'') world4')
     = Inl (AppError ''Invalid or expired token.'' 400)"
    using double_submission_refused[where w = world4'
            and req = "signReq tokenA ''uploads/signed/signature-3.png''" and env = ?env] vn
    by simp
  have "map_option doc_status (Document_findById world4' docId) = Some sent"
    unfolding world4'_def world3_def world2_def world1_def by code_simp
  then obtain d where d: "Document_findById world4' docId = Some d" and st: "doc_status d = sent"
    by auto
  have "map_option signer_signed (find (\<lambda>s. signer_email s = Some ''bob@x.io'')
          (doc_signers (the (Document_findById world4' docId)))) = Some True"
    unfolding world4'_def world3_def world2_def world1_def by code_simp
  with d obtain s where s: "find (\<lambda>s. signer_email s = Some ''bob@x.io'') (doc_signers d) = Some s"
    and sg: "signer_signed s" by auto
  have b: "body_documentId retryReq = docId" "body_signerEmail retryReq = Some ''bob@x.io''"
    by (simp_all add: retryReq_def addReq_def signReq_def emptyReq_def)
  have v: "fst (verifyToken (env_now ?env) (tokens world4')
             (params_token (signReq tokenB ''uploads/signed/signature-3.png'')))
           = Some (ObjectId docId 0, Some ''bob@x.io'')"
    unfolding world4'_def world3_def world2_def world1_def by code_simp
  have c1: "addSignature ?env retryReq world4'
     = (Inl (AppError ''You have already signed this document.'' 400), world4')"
    using double_submission_refused[where w = world4' and req = retryReq and d = d and s = s and env = ?env]
      d s sg st b by simp
  have c2: "signWithToken ?env (signReq tokenB ''uploads/signed/signature-3.png'') world4'
     = (Inl (AppError ''You have already signed this document.'' 400), world4')"
    using double_submission_refused[where w = world4'
            and req = "signReq tokenB ''uploads/signed/signature-3.png''" and d = d and s = s
            and env = ?env and oid = "ObjectId docId 0" and email = "Some ''bob@x.io''"]
      d s sg st v
    by (simp add: docId_def)
  from c1 c2 c5 show ?thesis by simp
qed

text \<open>
  The uniqueness constraint. The schema declares the index on the pair twice, plain first and
  unique after it, so the request for the unique one meets an index of its key pattern with
  other options and is refused. Building the declared indexes therefore never makes the
  pair unique: a collection that had no unique index on the pair has none afterwards, and
  the collection of a database this code has set up has the plain index only. No operation
  changes the indexes.
\<close>

lemma ensureIndexes_keeps_pair:
  "pairIsUnique (signatureIndexes (Signature_init w)) = pairIsUnique (signatureIndexes w)"
  by (auto simp: Signature_init_def ensureIndexes_def signatureSchema_indexes_def createIndex_def
        pairIsUnique_def pairKey_def image_iff)

lemma unique_pair_index_not_built:
  "signatureIndexes world0
     = [\<lparr>idx_key = pairKey, idx_unique = False\<rparr>, \<lparr>idx_key = [(''signedAt'', - 1)], idx_unique = False\<rparr>]"
  by (simp add: world0_def Signature_init_def ensureIndexes_def signatureSchema_indexes_def
        createIndex_def pairKey_def)

lemma ix_log: "signatureIndexes (AuditLog_log e w) = signatureIndexes w"
  by (simp add: AuditLog_log_def)

lemma ix_sendMail: "sendMail env m w = (r, w') \<Longrightarrow> signatureIndexes w' = signatureIndexes w"
  by (auto simp: sendMail_def split: if_splits)

lemma ix_save: "Document_save env b d w = (r, w') \<Longrightarrow> signatureIndexes w' = signatureIndexes w"
  by (auto simp: Document_save_def Let_def split: if_splits)

lemma ix_create: "Document_create env d w = (r, w') \<Longrightarrow> signatureIndexes w' = signatureIndexes w"
  by (auto simp: Document_create_def Let_def split: if_splits)

lemma ix_sig: "Signature_create env i w = (r, w') \<Longrightarrow> signatureIndexes w' = signatureIndexes w"
  by (auto simp: Signature_create_def Let_def split: if_splits)

lemma ix_read: "readSignatureData env f b w = (r, w') \<Longrightarrow> signatureIndexes w' = signatureIndexes w"
  by (auto simp: readSignatureData_def split: option.splits if_splits)

lemma ix_requests:
  "sendSigningRequests env d oid ss w = (r, w') \<Longrightarrow> signatureIndexes w' = signatureIndexes w"
  by (induction ss arbitrary: w)
     (auto simp: Let_def sendSigningRequest_def split: prod.splits sum.splits dest: ix_sendMail)

lemma ix_complete:
  "completeIfAllSigned env d w = (r, w') \<Longrightarrow> signatureIndexes w' = signatureIndexes w"
  by (auto simp: completeIfAllSigned_def Let_def sendDocumentSignedNotification_def
           split: if_splits sum.splits option.splits prod.splits dest!: ix_save ix_sendMail)

lemma ix_finish:
  "finishSubmission env reply entry m w = (r, w') \<Longrightarrow> signatureIndexes w' = signatureIndexes w"
  by (auto simp: finishSubmission_def ix_log split: sum.splits prod.splits dest!: ix_save ix_complete)

lemma ix_addSignature:
  "addSignature env req w = (r, w') \<Longrightarrow> signatureIndexes w' = signatureIndexes w"
  unfolding addSignature_def
  by (auto simp: ix_log split: option.splits if_splits prod.splits sum.splits
           dest!: ix_read ix_sig ix_save ix_complete)

lemma ix_signWithToken:
  "signWithToken env req w = (r, w') \<Longrightarrow> signatureIndexes w' = signatureIndexes w"
  unfolding signWithToken_def
  by (auto simp: ix_log Let_def split: option.splits if_splits prod.splits sum.splits
           dest!: ix_read ix_sig ix_save ix_complete)

lemma ix_update:
  "updateDocument env usr req d w = (r, w') \<Longrightarrow> signatureIndexes w' = signatureIndexes w"
  unfolding updateDocument_def
  by (auto simp: ix_log Let_def split: if_splits signersField.splits prod.splits sum.splits
           dest!: ix_save)

lemma ix_send:
  "sendDocument env usr req d w = (r, w') \<Longrightarrow> signatureIndexes w' = signatureIndexes w"
  unfolding sendDocument_def
  by (auto simp: ix_log Let_def split: if_splits prod.splits sum.splits
           dest!: ix_save ix_requests)

lemma ix_reject:
  "rejectDocument env usr req d w = (r, w') \<Longrightarrow> signatureIndexes w' = signatureIndexes w"
  unfolding rejectDocument_def
  by (auto simp: ix_log Let_def sendRejectionNotification_def split: if_splits prod.splits sum.splits
           dest!: ix_save ix_sendMail)

lemma ix_delete:
  "deleteDocument env usr req d w = (r, w') \<Longrightarrow> signatureIndexes w' = signatureIndexes w"
  unfolding deleteDocument_def
  by (auto simp: ix_log Let_def Document_findByIdAndDelete_def split: if_splits)

lemma ix_upload:
  "uploadDocument env usr req w = (r, w') \<Longrightarrow> signatureIndexes w' = signatureIndexes w"
  unfolding uploadDocument_def
  by (auto simp: ix_log Let_def split: option.splits if_splits signersField.splits prod.splits sum.splits
           dest!: ix_save ix_create)

lemma perform_signatureIndexes:
  "signatureIndexes (snd (perform env op req w)) = signatureIndexes w"
proof -
  obtain r w' where run: "perform env op req w = (r, w')" by (cases "perform env op req w")
  have "signatureIndexes w' = signatureIndexes w"
  proof (cases op)
    case OpUpload
    with run show ?thesis by (auto split: sum.splits dest: ix_upload)
  next
    case OpUpdate
    with run have "withOwnedDocument (updateDocument env) req w = (r, w')" by simp
    from withOwnedDocument_cases[OF this] show ?thesis by (auto dest: ix_update)
  next
    case OpSend
    with run have "withOwnedDocument (sendDocument env) req w = (r, w')" by simp
    from withOwnedDocument_cases[OF this] show ?thesis by (auto dest: ix_send)
  next
    case OpReject
    with run have "withOwnedDocument (rejectDocument env) req w = (r, w')" by simp
    from withOwnedDocument_cases[OF this] show ?thesis by (auto dest: ix_reject)
  next
    case OpDelete
    with run have "withOwnedDocument (deleteDocument env) req w = (r, w')" by simp
    from withOwnedDocument_cases[OF this] show ?thesis by (auto dest: ix_delete)
  next
    case OpAddSignature
    with run show ?thesis by (auto split: sum.splits dest: ix_addSignature)
  next
    case OpSignWithToken
    with run show ?thesis by (auto split: sum.splits dest: ix_signWithToken)
  qed
  with run show ?thesis by simp
qed

text \<open>
  Claim C3, the uniqueness constraint as the last line of defence. The second run starts
  from the database this code sets up, so the pair has no unique index. The document has
  the signers \<open>bob@x.io\<close> and \<open>Bob@X.io\<close>. The flag check compares the addresses as
  they are, so each of them passes it once; the Signature schema lowercases
  \<open>signerEmail\<close>, so both records have the pair (document, \<open>bob@x.io\<close>). Both
  submissions are answered with success, and the Signature collection holds two records for
  the one pair.
\<close>

theorem C3_second_signature_for_a_pair_is_stored:
  "\<not> pairIsUnique (signatureIndexes twins2)
   \<and> map doc_status (documents twins2) = [sent]
   \<and> map signer_email (concat (map doc_signers (documents twins2)))
       = [Some ''bob@x.io'', Some ''Bob@X.io'', Some ''carol@x.io'']
   \<and> \<not> isl (fst (perform (exEnv 3000 ''65a1f0c2b3d4e5f6a7b8c9e1'') OpAddSignature bobReq twins2))
   \<and> \<not> isl (fst (perform (exEnv 4000 ''65a1f0c2b3d4e5f6a7b8c9e2'') OpAddSignature bobbyReq twins3))
   \<and> map sig_key (signatureDocs twins4) = [(docId, ''bob@x.io''), (docId, ''bob@x.io'')]
   \<and> map sig_signerName (signatureDocs twins4) = [''Bob'', ''Bobby'']
   \<and> map signer_signed (concat (map doc_signers (documents twins4))) = [True, True, False]"
  unfolding twins4_def twins3_def twins2_def by code_simp

section \<open>Claim C2: a failed assembly\<close>





section \<open>Claim C10: the token is used up before completion\<close>

text \<open>
  Claim C10. Once a token-based submission has passed its checks (those of
  \<open>tokenSubmissionAccepted\<close>: the controller's checks and the validation and uniqueness
  of the Signature record it creates), the token is marked used before the all-signed check
  and the PDF assembly run. Whatever the completion does then, in the resulting state the
  token verifies at no clock reading, and a retry with the same token is answered with the
  invalid-token error.
\<close>

theorem C10_token_used_before_completion:
  assumes "tokenSubmissionAccepted env req w"
  shows "(\<forall>now'. fst (verifyToken now' (tokens (snd (signWithToken env req w))) (params_token req)) = None)
         \<and> (\<forall>env' req'. params_token req' = params_token req \<longrightarrow>
               fst (signWithToken env' req' (snd (signWithToken env req w)))
                 = Inl (AppError ''Invalid or expired token.'' 400))"
proof (intro conjI allI impI)
  fix now'
  show "fst (verifyToken now' (tokens (snd (signWithToken env req w))) (params_token req)) = None"
    using accepted_run[OF assms] by (simp add: verify_after_invalidate)
next
  fix env' :: env and req' :: request
  assume p: "params_token req' = params_token req"
  have "fst (verifyToken (env_now env') (tokens (snd (signWithToken env req w))) (params_token req')) = None"
    using accepted_run[OF assms] p by (simp add: verify_after_invalidate)
  then show "fst (signWithToken env' req' (snd (signWithToken env req w)))
                 = Inl (AppError ''Invalid or expired token.'' 400)"
    by (auto simp: signWithToken_def split: prod.splits option.splits)
qed

text \<open>
  In the run Bob's submission is accepted and the assembly then throws; his token no longer
  verifies and his retry is answered with the invalid-token error.
\<close>

theorem C10_witness:
  "fst (signWithToken (exEnv 4000 ''65a1f0c2b3d4e5f6a7b8c9e2'')
          (signReq tokenB ''uploads/signed/signature-2.png'') world3)
     = Inl (AppError ''Error generating signed PDF'' 500)
   \<and> fst (verifyToken 4001 (tokens world4) tokenB) = None
   \<and> fst (signWithToken (exEnv 5000 ''65a1f0c2b3d4e5f6a7b8c9e3'')
            (signReq tokenB ''uploads/signed/signature-3.png'') world4)
     = Inl (AppError ''Invalid or expired token.'' 400)"
proof -
  let ?env = "exEnv 4000 ''65a1f0c2b3d4e5f6a7b8c9e2''"
  let ?req = "signReq tokenB ''uploads/signed/signature-2.png''"
  have a: "tokenSubmissionAccepted ?env ?req world3"
    unfolding world3_def world2_def world1_def by code_simp
  have e: "fst (signWithToken ?env ?req world3) = Inl (AppError ''Error generating signed PDF'' 500)"
    unfolding world3_def world2_def world1_def by code_simp
  have "perform ?env OpSignWithToken ?req world3 = signWithToken ?env ?req world3"
    by (rule perform_signWithToken) (simp add: signReq_def emptyReq_def)
  then have w: "snd (signWithToken ?env ?req world3) = world4"
    by (simp add: world4_def)
  have t: "params_token ?req = tokenB"
          "params_token (signReq tokenB ''uploads/signed/signature-3.png'') = params_token ?req"
    by (simp_all add: signReq_def emptyReq_def)
  from C10_token_used_before_completion[OF a] w t e show ?thesis by simp
qed

section \<open>Claim C8: where tokens are minted\<close>

text \<open>
  Claim C8, as the code has it. Signing tokens are minted by \<open>uploadDocument\<close>, when the
  document is created in \<open>draft\<close>: after a successful upload the document is stored as a
  draft and, for each of its signers, the token drawn for that signer is a key of the token
  store with an unused entry for the new document. \<open>sendDocument\<close> leaves the token store
  as it is, and no operation other than upload adds a key to it.
\<close>

theorem C8_tokens_minted_at_upload:
  "(uploadDocument env usr req w = (Inr r, w') \<and> body_signers req = Parsed ss
     \<longrightarrow> map_option doc_status (Document_findById w' (env_newObjectId env)) = Some draft
         \<and> (\<forall>k. k < length ss \<longrightarrow>
               (\<exists>td. jsmap_get (tokens w') (env_randomBytes env k) = Some td
                     \<and> hexString (tok_documentId td) = env_newObjectId env \<and> \<not> tok_used td)))
   \<and> tokens (snd (sendDocument env usr req d w)) = tokens w
   \<and> (op \<noteq> OpUpload
     \<longrightarrow> set (map fst (tokens (snd (perform env op req w)))) \<subseteq> set (map fst (tokens w)))"
proof (intro conjI impI allI)
  assume a: "uploadDocument env usr req w = (Inr r, w') \<and> body_signers req = Parsed ss"
  from uploadDocument_success[of env usr req w r w'] a
  show "map_option doc_status (Document_findById w' (env_newObjectId env)) = Some draft"
    by auto
next
  fix k
  assume a: "uploadDocument env usr req w = (Inr r, w') \<and> body_signers req = Parsed ss"
    and k: "k < length ss"
  from uploadDocument_success[of env usr req w r w'] a obtain d0 where
    t: "tokens w' = snd (mintTokens env (ObjectId (env_newObjectId env) (nextRef w)) 0
                 (map signer_email ss) d0 (tokens w))" by auto
  from k have "k < length (map signer_email ss)" by simp
  from mintTokens_keys[OF this, of env "ObjectId (env_newObjectId env) (nextRef w)" 0 d0 "tokens w"] t
  show "\<exists>td. jsmap_get (tokens w') (env_randomBytes env k) = Some td
                     \<and> hexString (tok_documentId td) = env_newObjectId env \<and> \<not> tok_used td"
    by (auto simp: minted_def)
next
  obtain r1 w1 where s: "sendDocument env usr req d w = (r1, w1)"
    by (cases "sendDocument env usr req d w")
  from sendDocument_docs[OF s] s show "tokens (snd (sendDocument env usr req d w)) = tokens w"
    by simp
next
  assume op: "op \<noteq> OpUpload"
  obtain r1 w1 where s: "perform env op req w = (r1, w1)" by (cases "perform env op req w")
  from perform_token_keys[OF s op] s
  show "set (map fst (tokens (snd (perform env op req w)))) \<subseteq> set (map fst (tokens w))"
    by simp
qed

text \<open>
  Claim C8 as stated says that no signing token exists for a document still in draft and
  that send mints the tokens. In the run the uploaded draft has both tokens in the store,
  and sending it changes the status and leaves the token store as it was.
\<close>

theorem C8_tokens_exist_in_draft:
  "map_option doc_status (Document_findById world1 docId) = Some draft
   \<and> map fst (tokens world1) = [tokenA, tokenB]
   \<and> map (hexString \<circ> tok_documentId \<circ> snd) (tokens world1) = [docId, docId]
   \<and> map_option doc_status (Document_findById world2 docId) = Some sent
   \<and> tokens world2 = tokens world1"
  unfolding world2_def world1_def by code_simp

theorem C8_witness:
  "map_option doc_status (Document_findById world1 docId) = Some draft
   \<and> (\<exists>td. jsmap_get (tokens world1) tokenA = Some td \<and> hexString (tok_documentId td) = docId
            \<and> \<not> tok_used td)
   \<and> set (map fst (tokens world2)) \<subseteq> set (map fst (tokens world1))"
proof -
  let ?env = "exEnv 1000 docId"
  have "\<not> isl (fst (uploadDocument ?env alice uploadReq world0))" by code_simp
  then obtain r where r: "fst (uploadDocument ?env alice uploadReq world0) = Inr r"
    by (cases "fst (uploadDocument ?env alice uploadReq world0)") auto
  have p: "perform ?env OpUpload uploadReq world0 = uploadDocument ?env alice uploadReq world0"
    by (simp add: protect_def uploadDocumentMiddleware_def uploadReq_def emptyReq_def)
  have u: "uploadDocument ?env alice uploadReq world0 = (Inr r, world1)"
    using r p by (simp add: world1_def prod_eq_iff)
  have b: "body_signers uploadReq = Parsed [newSigner ''Ann'' ''ann@x.io'', newSigner ''Bob'' ''bob@x.io'']"
    by (simp add: uploadReq_def emptyReq_def)
  have k: "env_randomBytes ?env 0 = tokenA" "env_newObjectId ?env = docId" by (simp_all add: exEnv_def)
  note t = C8_tokens_minted_at_upload[where env = ?env and usr = alice and req = uploadReq
      and w = world0 and r = r and w' = world1
      and ss = "[newSigner ''Ann'' ''ann@x.io'', newSigner ''Bob'' ''bob@x.io'']" and op = OpSend]
  note t2 = C8_tokens_minted_at_upload[where env = "exEnv 2000 []" and req = sendReq
      and w = world1 and op = OpSend]
  from t u b k have 1: "map_option doc_status (Document_findById world1 docId) = Some draft"
    and "\<forall>k<length [newSigner ''Ann'' ''ann@x.io'', newSigner ''Bob'' ''bob@x.io''].
            \<exists>td. jsmap_get (tokens world1) (env_randomBytes ?env k) = Some td
                 \<and> hexString (tok_documentId td) = docId \<and> \<not> tok_used td"
    by simp_all
  then have 2: "\<exists>td. jsmap_get (tokens world1) tokenA = Some td \<and> hexString (tok_documentId td) = docId
            \<and> \<not> tok_used td"
    using k(1) by (metis length_greater_0_conv list.distinct(1))
  from t2 have 3: "set (map fst (tokens world2)) \<subseteq> set (map fst (tokens world1))"
    by (simp add: world2_def)
  from 1 2 3 show ?thesis by simp
qed

section \<open>Claim C5: what is stored of a token\<close>

text \<open>
  Claim C5, as the code has it. \<open>storeToken\<close> returns the token it was given and stores
  the entry (documentId, email, expiry, used = false) under that token itself as key.
  \<open>generateSigningToken\<close> returns the token it drew and writes the SHA-256 digest of the
  token, with an expiry, to the signer record of the document. So the Document collection
  holds a hashed form, and the token service's store holds the plaintext: after a successful
  upload each token drawn for a signer is a key of the token store.
\<close>

theorem C5_plaintext_token_is_store_key:
  "fst (storeToken now ts token oid email secs) = token
   \<and> jsmap_get (snd (storeToken now ts token oid email secs)) token
       = Some \<lparr>tok_documentId = oid, tok_email = email,
               tok_expiresAt = now + secs * 1000, tok_used = False\<rparr>
   \<and> fst (generateSigningToken env k d email) = env_randomBytes env k
   \<and> (find (\<lambda>s. signer_email s = email) (doc_signers d) = Some s
      \<longrightarrow> find (\<lambda>s. signer_email s = email) (doc_signers (snd (generateSigningToken env k d email)))
            = Some (s\<lparr>signer_signatureToken := Some (env_sha256 env (env_randomBytes env k)),
                      signer_tokenExpires := Some (env_now env + 7 * 24 * 60 * 60 * 1000)\<rparr>))
   \<and> (uploadDocument env usr req w = (Inr r, w') \<and> body_signers req = Parsed ss \<and> k < length ss
      \<longrightarrow> jsmap_get (tokens w') (env_randomBytes env k) \<noteq> None)"
proof (intro conjI impI)
  show "fst (storeToken now ts token oid email secs) = token"
    by (simp add: storeToken_def Let_def)
  show "jsmap_get (snd (storeToken now ts token oid email secs)) token
       = Some \<lparr>tok_documentId = oid, tok_email = email,
               tok_expiresAt = now + secs * 1000, tok_used = False\<rparr>"
    by (simp add: storeToken_def Let_def jsmap_get_set_same)
  show "fst (generateSigningToken env k d email) = env_randomBytes env k"
    by (simp add: generateSigningToken_def Let_def)
next
  assume "find (\<lambda>s. signer_email s = email) (doc_signers d) = Some s"
  then show "find (\<lambda>s. signer_email s = email) (doc_signers (snd (generateSigningToken env k d email)))
            = Some (s\<lparr>signer_signatureToken := Some (env_sha256 env (env_randomBytes env k)),
                      signer_tokenExpires := Some (env_now env + 7 * 24 * 60 * 60 * 1000)\<rparr>)"
    by (simp add: generateSigningToken_def Let_def find_updateFirst)
next
  assume a: "uploadDocument env usr req w = (Inr r, w') \<and> body_signers req = Parsed ss \<and> k < length ss"
  from uploadDocument_success[of env usr req w r w'] a obtain d0 where
    t: "tokens w' = snd (mintTokens env (ObjectId (env_newObjectId env) (nextRef w)) 0
                 (map signer_email ss) d0 (tokens w))" by auto
  from a have "k < length (map signer_email ss)" by simp
  from mintTokens_keys[OF this, of env "ObjectId (env_newObjectId env) (nextRef w)" 0 d0 "tokens w"] t
  show "jsmap_get (tokens w') (env_randomBytes env k) \<noteq> None" by auto
qed

text \<open>
  Claim C5 as stated says the plaintext token is never stored in any store. After the
  upload of the run the keys of the token store are the two tokens drawn, not their
  digests; the digests are in the signer records.
\<close>

theorem C5_store_key_is_plaintext:
  "map fst (tokens world1) = [env_randomBytes (exEnv 1000 docId) 0, env_randomBytes (exEnv 1000 docId) 1]
   \<and> map fst (tokens world1) = [tokenA, tokenB]
   \<and> map (signer_signatureToken) (concat (map doc_signers (documents world1)))
       = [Some (exSha256 tokenA), Some (exSha256 tokenB)]
   \<and> exSha256 tokenA \<noteq> tokenA \<and> exSha256 tokenB \<noteq> tokenB"
  unfolding world1_def by code_simp

theorem C5_witness:
  "jsmap_get (tokens world1) tokenB \<noteq> None
   \<and> fst (storeToken 1000 [] tokenA (ObjectId docId 0) (Some ''ann@x.io'') sevenDays) = tokenA
   \<and> find (\<lambda>s. signer_email s = Some ''ann@x.io'')
        (doc_signers (snd (generateSigningToken (exEnv 1000 docId) 1
           (the (Document_findById world2 docId)) (Some ''ann@x.io''))))
      \<noteq> None"
proof -
  let ?env = "exEnv 1000 docId"
  have "\<not> isl (fst (uploadDocument ?env alice uploadReq world0))" by code_simp
  then obtain r where r: "fst (uploadDocument ?env alice uploadReq world0) = Inr r"
    by (cases "fst (uploadDocument ?env alice uploadReq world0)") auto
  have p: "perform ?env OpUpload uploadReq world0 = uploadDocument ?env alice uploadReq world0"
    by (simp add: protect_def uploadDocumentMiddleware_def uploadReq_def emptyReq_def)
  have u: "uploadDocument ?env alice uploadReq world0 = (Inr r, world1)"
    using r p by (simp add: world1_def prod_eq_iff)
  have b: "body_signers uploadReq = Parsed [newSigner ''Ann'' ''ann@x.io'', newSigner ''Bob'' ''bob@x.io'']"
    by (simp add: uploadReq_def emptyReq_def)
  have k: "env_randomBytes ?env 1 = tokenB" by (simp add: exEnv_def)
  have "find (\<lambda>s. signer_email s = Some ''ann@x.io'') (doc_signers (the (Document_findById world2 docId))) \<noteq> None"
    unfolding world2_def world1_def by code_simp
  then obtain s where s: "find (\<lambda>s. signer_email s = Some ''ann@x.io'')
       (doc_signers (the (Document_findById world2 docId))) = Some s" by auto
  from C5_plaintext_token_is_store_key[where env = ?env and usr = alice and req = uploadReq
      and w = world0 and r = r and w' = world1 and k = 1
      and ss = "[newSigner ''Ann'' ''ann@x.io'', newSigner ''Bob'' ''bob@x.io'']"
      and now = 1000 and ts = "[]" and token = tokenA and oid = "ObjectId docId 0"
      and email = "Some ''ann@x.io''" and secs = sevenDays
      and d = "the (Document_findById world2 docId)" and s = s]
    u b k s
  show ?thesis by simp
qed

section \<open>Claim C6: verification\<close>

text \<open>
  Claim C6, as the code has it. \<open>verifyToken\<close> returns the pair of the entry exactly when
  the token is a key of the store, its entry is not expired (\<open>expiresAt\<close> is not before the
  clock) and not used, and \<open>null\<close> otherwise. It leaves the store as it is unless the token
  is present and expired: then it deletes that entry. Asked again with the same clock
  reading, it gives the same answer.
\<close>

theorem C6_verifyToken:
  "fst (verifyToken now ts token) =
     (case jsmap_get ts token of
        None \<Rightarrow> None
      | Some td \<Rightarrow> if \<not> tok_expiresAt td < now \<and> \<not> tok_used td
                   then Some (tok_documentId td, tok_email td) else None)
   \<and> snd (verifyToken now ts token) =
     (case jsmap_get ts token of
        None \<Rightarrow> ts
      | Some td \<Rightarrow> if tok_expiresAt td < now then jsmap_delete ts token else ts)
   \<and> fst (verifyToken now (snd (verifyToken now ts token)) token) = fst (verifyToken now ts token)"
  by (auto simp: verifyToken_def jsmap_get_delete split: option.splits)

text \<open>
  Claim C6 as stated says that verification never mutates the token store. Verifying Ann's
  token after its expiry removes her entry from the store of \<open>world1\<close>.
\<close>

theorem C6_verify_deletes_expired:
  "map fst (tokens world1) = [tokenA, tokenB]
   \<and> verifyToken 604801001 (tokens world1) tokenA = (None, tl (tokens world1))"
  unfolding world1_def by code_simp

section \<open>Claim C7: the signing link\<close>

text \<open>
  \<open>getToken\<close> finds nothing for an ObjectId that is another object than every stored one.
\<close>

lemma getToken_other_instance:
  "\<forall>kv \<in> set ts. objRef (tok_documentId (snd kv)) \<noteq> n \<Longrightarrow> getToken ts (ObjectId i n) email = None"
  by (induction ts) (auto simp: strict_eq_def)

text \<open>
  Claim C7. \<open>getToken\<close> compares the stored \<open>documentId\<close> with \<open>document._id\<close> by
  \<open>===\<close>. The stored object is the \<open>_id\<close> of the instance \<open>uploadDocument\<close> created;
  \<open>sendDocument\<close> passes the \<open>_id\<close> of the instance its middleware loaded, another
  object. In the run both tokens are stored, unused, for the document sent, and both
  signing links end in \<open>null\<close>.
\<close>

theorem C7_signing_link_is_null:
  "map mail_signingUrl (outbox world2)
     = [Some ''https://sign.example/api/sign/null'', Some ''https://sign.example/api/sign/null'']
   \<and> map fst (tokens world2) = [tokenA, tokenB]
   \<and> map (tok_used \<circ> snd) (tokens world2) = [False, False]
   \<and> map (hexString \<circ> tok_documentId \<circ> snd) (tokens world2) = [docId, docId]"
  unfolding world2_def world1_def by code_simp

section \<open>Claim C9: the audit entry of an anonymous action\<close>

lemma AuditLog_log_requires_userId: "log_userId data = None \<Longrightarrow> AuditLog_log data w = w"
  by (simp add: AuditLog_log_def AuditLog_validate_def)

text \<open>
  Claim C9. Ann signs through her token link: the request succeeds and her Signature is
  stored, but the audit entry \<open>signWithToken\<close> builds has \<open>userId: null\<close>, the schema
  requires \<open>userId\<close>, and \<open>AuditLog.log\<close> swallows the validation error: the audit
  collection is what it was.
\<close>

theorem C9_anonymous_entry_not_stored:
  "\<not> isl (fst (perform (exEnv 3000 ''65a1f0c2b3d4e5f6a7b8c9e1'') OpSignWithToken
                   (signReq tokenA ''uploads/signed/signature-1.png'') world2))
   \<and> length (signatureDocs world3) = Suc (length (signatureDocs world2))
   \<and> auditLogs world3 = auditLogs world2"
  unfolding world3_def world2_def world1_def by code_simp

section \<open>The integrity check\<close>

text \<open>
  What \<open>verifySignature\<close> reports for a document with a signed file on disk: the digest of
  the signed file is compared with \<open>metadata.fileHash\<close>, the digest of the original upload.
\<close>

lemma verifySignature_intact:
  "Signature_findById w (params_signatureId req) = Some sg \<Longrightarrow>
   Document_findById w (sig_documentId sg) = Some d \<Longrightarrow>
   doc_signedFile d = Some sf \<Longrightarrow> sf_path sf \<noteq> [] \<Longrightarrow>
   jsmap_get (files w) (sf_path sf) = Some fileBuffer \<Longrightarrow>
   fst (verifySignature env req w)
     = Inr (Verification sg (sig_isVerified sg \<and> env_sha256 env fileBuffer = doc_fileHash d)
              (env_sha256 env fileBuffer = doc_fileHash d))"
  by (simp add: verifySignature_def Let_def)

end
